theory Spec2Isabelle
  imports Main "HOL-Library.Sublist"
begin

section \<open>The M720 button remapper: constants and data\<close>

text \<open>
  The event codes are those of \<^verbatim>\<open>evdev.ecodes\<close>, which mirrors the Linux header
  \<^verbatim>\<open>input-event-codes.h\<close>: \<^verbatim>\<open>EV_KEY = 0x01\<close>, \<^verbatim>\<open>BTN_LEFT = 0x110\<close> up to
  \<^verbatim>\<open>BTN_BACK = 0x116\<close>.
\<close>

definition EV_KEY :: int where "EV_KEY = 1"
definition BTN_LEFT :: int where "BTN_LEFT = 272"
definition BTN_RIGHT :: int where "BTN_RIGHT = 273"
definition BTN_MIDDLE :: int where "BTN_MIDDLE = 274"
definition BTN_SIDE :: int where "BTN_SIDE = 275"
definition BTN_EXTRA :: int where "BTN_EXTRA = 276"
definition BTN_FORWARD :: int where "BTN_FORWARD = 277"
definition BTN_BACK :: int where "BTN_BACK = 278"

text \<open>
  An \<^verbatim>\<open>evdev.InputEvent\<close>, reduced to the three fields the program reads
  (\<^verbatim>\<open>event.type\<close>, \<^verbatim>\<open>event.code\<close>, \<^verbatim>\<open>event.value\<close>).
\<close>

record input_event =
  ev_type :: int
  ev_code :: int
  ev_value :: int

text \<open>
  An \<^verbatim>\<open>evdev.InputDevice\<close>: \<^verbatim>\<open>device.name\<close>, \<^verbatim>\<open>device.path\<close> and the dictionary
  returned by \<^verbatim>\<open>device.capabilities()\<close>, from an event type to the codes supported.
\<close>

record device =
  dev_name :: string
  dev_path :: string
  dev_capabilities :: "int \<rightharpoonup> int list"

text \<open>
  The exceptions the program names, and \<open>OtherException\<close> for every other subclass of
  \<^verbatim>\<open>Exception\<close>. \<open>KeyboardInterrupt\<close> is the only one that is not an \<^verbatim>\<open>Exception\<close>.
\<close>

datatype exn =
    BlockingIOError
  | KeyboardInterrupt
  | FileNotFoundError
  | CalledProcessError int
  | PermissionError
  | OtherException

definition is_Exception :: "exn \<Rightarrow> bool" where
  "is_Exception e = (e \<noteq> KeyboardInterrupt)"

text \<open>
  What \<^verbatim>\<open>print\<close> writes. Fixed ASCII lines are kept as text; lines built with an f-string
  carry the values that are formatted into them.
\<close>

datatype msg =
    Line string
  | FoundPotential string          \<comment> \<open>\<^verbatim>\<open>Found potential M720 device: {device.name}\<close>\<close>
  | DevicePath string              \<comment> \<open>\<^verbatim>\<open>Device path: {device.path}\<close>\<close>
  | HasMouseButtons "int list"     \<comment> \<open>\<^verbatim>\<open>This device has mouse buttons: [...]\<close>, by code\<close>
  | ErrorSendingKeyCombo int       \<comment> \<open>\<^verbatim>\<open>Error sending key combo: {e}\<close>, by exit status\<close>
  | Monitoring string              \<comment> \<open>\<^verbatim>\<open>Monitoring {device.name} for button presses...\<close>\<close>
  | ButtonPressed int              \<comment> \<open>\<^verbatim>\<open>Button pressed: {button_name} (code: {event.code})\<close>\<close>
  | SendingPageDown                \<comment> \<open>the line announcing Super + Page Down\<close>
  | SendingPageUp                  \<comment> \<open>the line announcing Super + Page Up\<close>
  | ErrorSettingUp exn             \<comment> \<open>\<^verbatim>\<open>Error setting up ydotool: {e}\<close>\<close>
  | SudoHint string                \<comment> \<open>\<^verbatim>\<open>sudo python3 {sys.argv[0]}\<close>\<close>
  | DeviceEntry nat string string  \<comment> \<open>\<^verbatim>\<open>{i}: {dev.name} ({dev.path})\<close>\<close>
  | UsingDevice string             \<comment> \<open>\<^verbatim>\<open>Using device: {device.name}\<close>\<close>
  | ErrorMsg exn                   \<comment> \<open>\<^verbatim>\<open>Error: {e}\<close>\<close>

text \<open>
  The state the program acts on: the lines printed so far, the argument vectors of the
  child processes it has tried to start, and the selector of \<^verbatim>\<open>handle_mouse_events\<close>
  (whether it exists and whether the device is registered with it), and whether the
  input device the loop reads from is open: the \<^verbatim>\<open>InputDevice\<close> that
  \<^verbatim>\<open>find_m720_device\<close> returns, opened by its enumeration. (The devices it does not
  return are left to the garbage collector and are not tracked.) Two further fields are
  bookkeeping for the properties below and are never read by the program: the argument
  of every call of \<^verbatim>\<open>send_key_combo\<close>, and every event for which the body of the
  \<^verbatim>\<open>for\<close> loop has been entered.
\<close>

record world =
  stdout :: "msg list"
  spawned :: "string list list"
  selector_open :: bool
  registered :: bool
  device_open :: bool
  combos :: "string list"
  handled :: "input_event list"

definition init_world :: world where
  "init_world = \<lparr>stdout = [], spawned = [], selector_open = False, registered = False,
     device_open = False, combos = [], handled = []\<rparr>"

definition print :: "msg \<Rightarrow> world \<Rightarrow> world" where
  "print m w = w\<lparr>stdout := stdout w @ [m]\<rparr>"

section \<open>Child processes\<close>

text \<open>
  What starting a child process does is not decided by the program: the n-th attempt
  either completes with an exit status or raises (\<^verbatim>\<open>FileNotFoundError\<close> when the
  executable is absent). The environment is a function from the number of earlier
  attempts to the outcome.
\<close>

datatype run_outcome = Completed int | Raises exn

type_synonym spawner = "nat \<Rightarrow> run_outcome"

definition subprocess_run :: "spawner \<Rightarrow> string list \<Rightarrow> bool \<Rightarrow> world \<Rightarrow> world \<times> (exn + int)" where
  "subprocess_run tool argv check w =
     (let w' = w\<lparr>spawned := spawned w @ [argv]\<rparr> in
      case tool (length (spawned w)) of
        Raises e \<Rightarrow> (w', Inl e)
      | Completed rc \<Rightarrow>
          if check \<and> rc \<noteq> 0 then (w', Inl (CalledProcessError rc)) else (w', Inr rc))"

section \<open>send_key_combo\<close>

fun send_key_combo_except :: "world \<times> (exn + int) \<Rightarrow> world \<times> (exn + bool)" where
  "send_key_combo_except (w, Inr _) = (w, Inr True)"
| "send_key_combo_except (w, Inl (CalledProcessError rc)) =
     (print (ErrorSendingKeyCombo rc) w, Inr False)"
| "send_key_combo_except (w, Inl FileNotFoundError) =
     (print (Line ''ydotool not found. Please install it: sudo dnf install ydotool'') w,
      Inr False)"
| "send_key_combo_except (w, Inl e) = (w, Inl e)"

definition send_key_combo :: "spawner \<Rightarrow> string \<Rightarrow> world \<Rightarrow> world \<times> (exn + bool)" where
  "send_key_combo tool keys w0 =
     (let w = w0\<lparr>combos := combos w0 @ [keys]\<rparr> in
      send_key_combo_except
        (if keys = ''super+page_up'' then
           subprocess_run tool
             [''ydotool'', ''key'', ''125:1'', ''104:1'', ''104:0'', ''125:0''] True w
         else if keys = ''super+page_down'' then
           subprocess_run tool
             [''ydotool'', ''key'', ''125:1'', ''109:1'', ''109:0'', ''125:0''] True w
         else (w, Inr 0)))"

section \<open>handle_mouse_events\<close>

text \<open>An expression statement: the value is dropped, an exception is not.\<close>

definition discard :: "world \<times> (exn + 'a) \<Rightarrow> world \<times> (exn + unit)" where
  "discard r = (case r of (w, Inl e) \<Rightarrow> (w, Inl e) | (w, Inr _) \<Rightarrow> (w, Inr ()))"

text \<open>
  The body of the \<^verbatim>\<open>for\<close> loop, for one event. The lookup of \<^verbatim>\<open>button_name\<close> (a
  dictionary \<^verbatim>\<open>get\<close> with a default) changes nothing and cannot raise; the name only
  enters the line printed, which here carries the code.
\<close>

definition handle_event :: "spawner \<Rightarrow> input_event \<Rightarrow> world \<Rightarrow> world \<times> (exn + unit)" where
  "handle_event tool ev w =
     (if ev_type ev = EV_KEY then
        if ev_value ev = 1 then
          if ev_code ev \<in> set [BTN_SIDE, BTN_EXTRA, BTN_FORWARD, BTN_BACK, 275, 276, 277, 278] then
            let w1 = print (ButtonPressed (ev_code ev)) w in
            if ev_code ev = BTN_SIDE \<or> ev_code ev = BTN_BACK then
              discard (send_key_combo tool ''super+page_down'' (print SendingPageDown w1))
            else if ev_code ev = BTN_EXTRA \<or> ev_code ev = BTN_FORWARD then
              discard (send_key_combo tool ''super+page_up'' (print SendingPageUp w1))
            else if ev_code ev \<in> set [275, 276, 277, 278] then
              if ev_code ev \<in> set [275, 278] then
                discard (send_key_combo tool ''super+page_down'' (print SendingPageDown w1))
              else
                discard (send_key_combo tool ''super+page_up'' (print SendingPageUp w1))
            else (w1, Inr ())
          else (w, Inr ())
        else (w, Inr ())
      else (w, Inr ()))"

text \<open>
  The same body with the branch for "additional button codes" (the last \<^verbatim>\<open>elif\<close>)
  taken out.
\<close>

definition handle_event_two_branches ::
    "spawner \<Rightarrow> input_event \<Rightarrow> world \<Rightarrow> world \<times> (exn + unit)" where
  "handle_event_two_branches tool ev w =
     (if ev_type ev = EV_KEY then
        if ev_value ev = 1 then
          if ev_code ev \<in> set [BTN_SIDE, BTN_EXTRA, BTN_FORWARD, BTN_BACK, 275, 276, 277, 278] then
            let w1 = print (ButtonPressed (ev_code ev)) w in
            if ev_code ev = BTN_SIDE \<or> ev_code ev = BTN_BACK then
              discard (send_key_combo tool ''super+page_down'' (print SendingPageDown w1))
            else if ev_code ev = BTN_EXTRA \<or> ev_code ev = BTN_FORWARD then
              discard (send_key_combo tool ''super+page_up'' (print SendingPageUp w1))
            else (w1, Inr ())
          else (w, Inr ())
        else (w, Inr ())
      else (w, Inr ()))"

text \<open>
  \<^verbatim>\<open>for event in device.read(): ...\<close> over the events of one read. An exception
  raised by the body ends the loop and leaves the remaining events unprocessed.
\<close>

fun process_events :: "spawner \<Rightarrow> input_event list \<Rightarrow> world \<Rightarrow> world \<times> (exn + unit)" where
  "process_events tool [] w = (w, Inr ())"
| "process_events tool (ev # evs) w =
     (case handle_event tool ev (w\<lparr>handled := handled w @ [ev]\<rparr>) of
        (w', Inl e) \<Rightarrow> (w', Inl e)
      | (w', Inr _) \<Rightarrow> process_events tool evs w')"

text \<open>
  One turn of \<^verbatim>\<open>while True\<close>, as the environment decides it: \<^verbatim>\<open>selector.select\<close>
  times out with nothing ready, or raises (Ctrl-C arrives as \<open>KeyboardInterrupt\<close>),
  or reports the device readable, after which \<^verbatim>\<open>device.read()\<close> raises or delivers
  a batch of events.
\<close>

datatype poll =
    NoData
  | SelectRaises exn
  | ReadRaises exn
  | Data "input_event list"

text \<open>
  The loop runs for as long as the environment keeps it running, so it is modelled
  over a finite prefix of what the environment does: \<open>Running\<close> is the result when the
  prefix is used up and the loop is back in \<^verbatim>\<open>select\<close>.
\<close>

datatype status = Running | Returned | Raised exn

fun event_loop :: "spawner \<Rightarrow> poll list \<Rightarrow> world \<Rightarrow> world \<times> status" where
  "event_loop tool [] w = (w, Running)"
| "event_loop tool (NoData # ps) w = event_loop tool ps w"
| "event_loop tool (SelectRaises e # ps) w = (w, Raised e)"
| "event_loop tool (ReadRaises e # ps) w =
     (if e = BlockingIOError then event_loop tool ps w else (w, Raised e))"
| "event_loop tool (Data evs # ps) w =
     (case process_events tool evs w of
        (w', Inr _) \<Rightarrow> event_loop tool ps w'
      | (w', Inl e) \<Rightarrow>
          if e = BlockingIOError then event_loop tool ps w' else (w', Raised e))"

definition banner :: "device \<Rightarrow> msg list" where
  "banner d =
     [Monitoring (dev_name d),
      Line ''Button mapping:'',
      Line ''- Side button (BTN_SIDE): Super + Page Down'',
      Line ''- Extra button (BTN_EXTRA): Super + Page Up'',
      Line ''- Forward button (BTN_FORWARD): Super + Page Up'',
      Line ''- Back button (BTN_BACK): Super + Page Down'',
      Line (CHR 0x0A # ''NOTE: Normal mouse functions (click, move, scroll) will continue to work''),
      Line ''Press Ctrl+C to stop'',
      Line (replicate 50 (CHR ''-''))]"

text \<open>
  The \<^verbatim>\<open>finally\<close> clause: \<^verbatim>\<open>selector.unregister(device); selector.close()\<close>.
  Unregistering a registered device and closing an open selector do not raise.
\<close>

definition release :: "world \<Rightarrow> world" where
  "release w = w\<lparr>registered := False, selector_open := False\<rparr>"

text \<open>
  \<^verbatim>\<open>handle_mouse_events\<close>: the banner, then the selector is created and the device
  registered with it (both taken to succeed; the \<^verbatim>\<open>try\<close> begins after them), then
  the loop under \<^verbatim>\<open>except KeyboardInterrupt\<close> and \<^verbatim>\<open>finally\<close>.
\<close>

definition handle_mouse_events :: "spawner \<Rightarrow> device \<Rightarrow> poll list \<Rightarrow> world \<Rightarrow> world \<times> status" where
  "handle_mouse_events tool d polls w0 =
     (let w1 = fold print (banner d) w0;
          w2 = w1\<lparr>selector_open := True, registered := True\<rparr>
      in case event_loop tool polls w2 of
           (w3, Running) \<Rightarrow> (w3, Running)
         | (w3, Returned) \<Rightarrow> (release w3, Returned)
         | (w3, Raised e) \<Rightarrow>
             if e = KeyboardInterrupt then
               (release (print (Line (CHR 0x0A # ''Stopping mouse button remapper...'')) w3),
                Returned)
             else (release w3, Raised e))"

section \<open>find_m720_device\<close>

definition mouse_buttons :: "int list" where
  "mouse_buttons =
     [BTN_LEFT, BTN_RIGHT, BTN_MIDDLE, BTN_SIDE, BTN_EXTRA, BTN_FORWARD, BTN_BACK]"

text \<open>
  \<^verbatim>\<open>"M720" in device.name\<close> is the substring test, \<^const>\<open>sublist\<close> on strings. (Both
  needles are ASCII, so testing bytes and testing code points agree.)
\<close>

fun find_loop :: "device list \<Rightarrow> world \<Rightarrow> world \<times> device option" where
  "find_loop [] w = (w, None)"
| "find_loop (d # ds) w =
     (if sublist ''M720'' (dev_name d) \<or> sublist ''Logitech'' (dev_name d) then
        let w1 = print (DevicePath (dev_path d)) (print (FoundPotential (dev_name d)) w) in
        case dev_capabilities d EV_KEY of
          None \<Rightarrow> find_loop ds w1
        | Some keys \<Rightarrow>
            if list_ex (\<lambda>btn. btn \<in> set keys) mouse_buttons then
              (print (HasMouseButtons (filter (\<lambda>btn. btn \<in> set mouse_buttons) keys)) w1,
               Some d)
            else find_loop ds w1
      else find_loop ds w)"

text \<open>
  The enumeration \<^verbatim>\<open>[evdev.InputDevice(path) for path in evdev.list_devices()]\<close> either
  raises (a device cannot be opened) or gives the devices in enumeration order, each of
  them opened. The device returned is therefore open; nothing in the program closes it
  (the source has no call of \<^verbatim>\<open>close\<close> on a device).
\<close>

definition find_m720_device :: "exn + device list \<Rightarrow> world \<Rightarrow> world \<times> (exn + device option)" where
  "find_m720_device enum w =
     (case enum of
        Inl e \<Rightarrow> (w, Inl e)
      | Inr devices \<Rightarrow>
          (case find_loop devices w of
             (w', None) \<Rightarrow> (w', Inr None)
           | (w', Some d) \<Rightarrow> (w'\<lparr>device_open := True\<rparr>, Inr (Some d))))"

text \<open>
  The selection as the specification words it: the name contains one of the substrings,
  and the \<^verbatim>\<open>EV_KEY\<close> capabilities contain one of the mouse button codes.
\<close>

definition is_m720 :: "device \<Rightarrow> bool" where
  "is_m720 d =
     ((sublist ''M720'' (dev_name d) \<or> sublist ''Logitech'' (dev_name d)) \<and>
      (case dev_capabilities d EV_KEY of
         None \<Rightarrow> False
       | Some keys \<Rightarrow> list_ex (\<lambda>k. k \<in> set mouse_buttons) keys))"

section \<open>setup_ydotool and main\<close>

definition subprocess_Popen :: "spawner \<Rightarrow> string list \<Rightarrow> world \<Rightarrow> world \<times> (exn + unit)" where
  "subprocess_Popen tool argv w =
     (let w' = w\<lparr>spawned := spawned w @ [argv]\<rparr> in
      case tool (length (spawned w)) of
        Raises e \<Rightarrow> (w', Inl e)
      | Completed _ \<Rightarrow> (w', Inr ()))"

fun setup_ydotool_except :: "world \<times> (exn + bool) \<Rightarrow> world \<times> (exn + bool)" where
  "setup_ydotool_except (w, Inr b) = (w, Inr b)"
| "setup_ydotool_except (w, Inl e) =
     (if is_Exception e then (print (ErrorSettingUp e) w, Inr False) else (w, Inl e))"

definition setup_ydotool :: "spawner \<Rightarrow> world \<Rightarrow> world \<times> (exn + bool)" where
  "setup_ydotool tool w =
     setup_ydotool_except
       (case subprocess_run tool [''pgrep'', ''ydotoold''] False w of
          (w1, Inl e) \<Rightarrow> (w1, Inl e)
        | (w1, Inr returncode) \<Rightarrow>
            if returncode \<noteq> 0 then
              (case subprocess_Popen tool [''sudo'', ''ydotoold'']
                      (print (Line ''Starting ydotool daemon...'') w1) of
                 (w2, Inl e) \<Rightarrow> (w2, Inl e)
               | (w2, Inr _) \<Rightarrow> (w2, Inr True))
            else (w1, Inr True))"

fun main_except :: "world \<times> status \<Rightarrow> world \<times> status" where
  "main_except (w, Raised e) =
     (if e = PermissionError then
        (print (Line ''Make sure to run with sudo'')
           (print (Line ''Permission denied accessing input device'') w), Returned)
      else if e = KeyboardInterrupt then
        (print (Line (CHR 0x0A # ''Stopping mouse button remapper...'')) w, Returned)
      else if is_Exception e then (print (ErrorMsg e) w, Returned)
      else (w, Raised e))"
| "main_except (w, st) = (w, st)"

text \<open>
  \<^verbatim>\<open>main\<close>, given the effective user id, \<^verbatim>\<open>sys.argv[0]\<close>, the outcomes of the child
  processes, the two enumerations of the input devices (the second is made only when no
  device was found) and what the event loop meets.
\<close>

definition main ::
    "int \<Rightarrow> string \<Rightarrow> spawner \<Rightarrow> exn + device list \<Rightarrow> exn + device list \<Rightarrow> poll list \<Rightarrow>
     world \<Rightarrow> world \<times> status" where
  "main euid argv0 tool enum1 enum2 polls w0 =
     (let w = print (Line (replicate 60 (CHR ''='')))
                (print (Line ''M720 Mouse Button Remapper for Wayland (Non-Grabbing Version)'') w0)
      in
      if euid \<noteq> 0 then
        (fold print
           [Line ''This script needs to access input devices.'',
            Line ''Please run with sudo:'',
            SudoHint argv0] w, Returned)
      else
        case setup_ydotool tool w of
          (w1, Inl e) \<Rightarrow> (w1, Raised e)
        | (w1, Inr ok) \<Rightarrow>
            if \<not> ok then (print (Line ''Failed to setup ydotool'') w1, Returned)
            else
              (case find_m720_device enum1 w1 of
                (w2, Inl e) \<Rightarrow> (w2, Raised e)
              | (w2, Inr None) \<Rightarrow>
                  (let w3 = print (Line (CHR 0x0A # ''Available devices:''))
                              (print (Line ''M720 device not found!'') w2)
                   in case enum2 of
                        Inl e \<Rightarrow> (w3, Raised e)
                      | Inr devices \<Rightarrow>
                          (fold print
                             (map (\<lambda>(i, dev). DeviceEntry i (dev_name dev) (dev_path dev))
                                (enumerate 0 devices)) w3, Returned))
              | (w2, Inr (Some d)) \<Rightarrow>
                  main_except
                    (handle_mouse_events tool d polls
                       (print (Line ''NOT grabbing device - normal mouse functions will continue to work'')
                          (print (UsingDevice (dev_name d)) w2)))))"

section \<open>The benchmarking script\<close>

text \<open>
  \<^verbatim>\<open>benchmarks/benchmark.py\<close>, as far as its control flow goes: what it prints, which
  commands it tries to start, which approaches end up in \<^verbatim>\<open>self.results\<close>, and
  \<^verbatim>\<open>sys.argv\<close>. The figures of a \<^verbatim>\<open>BenchmarkResult\<close> are floating-point readings of
  the clock and are left out; a result is represented by its \<^verbatim>\<open>approach\<close> field.
\<close>

datatype bmsg =
    BLine string
  | Report "string list"   \<comment> \<open>the output of \<^verbatim>\<open>generate_report\<close> for these results\<close>

record bench =
  sys_argv :: "string list"
  printed :: "bmsg list"
  commands :: "string list list"
  results :: "string list"

text \<open>
  The environment of the benchmark: which of the three paths exist, and whether the
  commands \<^verbatim>\<open>sudo python3 ...\<close> and \<^verbatim>\<open>sudo insmod ...\<close> start without an exception.
\<close>

record bench_env =
  python_exists :: bool
  ko_exists :: bool
  hybrid_exists :: bool
  popen_ok :: bool
  insmod_ok :: bool

definition bprint :: "string \<Rightarrow> bench \<Rightarrow> bench" where
  "bprint s b = b\<lparr>printed := printed b @ [BLine s]\<rparr>"

definition command :: "string list \<Rightarrow> bench \<Rightarrow> bench" where
  "command argv b = b\<lparr>commands := commands b @ [argv]\<rparr>"

definition benchmark_python_approach :: "bench_env \<Rightarrow> bench \<Rightarrow> bench \<times> string option" where
  "benchmark_python_approach env b0 =
     (let b = command [''sudo'', ''python3'', ''../m720_button_remapper_safe.py'']
                (bprint ''  Starting Python approach benchmark...'' b0)
      in if popen_ok env then (b, Some ''Python Userspace'')
         else (bprint ''  Error benchmarking Python approach'' b, None))"

definition benchmark_kernel_module :: "bench_env \<Rightarrow> bench \<Rightarrow> bench \<times> string option" where
  "benchmark_kernel_module env b0 =
     (let b = command [''sudo'', ''insmod'', ''../kernel-module/c-implementation/m720_remapper.ko'']
                (bprint ''  Starting kernel module benchmark...'' b0);
          r = (if insmod_ok env then (b, Some ''Kernel Module'')
               else (bprint ''  Error benchmarking kernel module'' b, None))
      in (command [''sudo'', ''rmmod'', ''m720_remapper''] (fst r), snd r))"

definition benchmark_hybrid_approach :: "bench \<Rightarrow> bench \<times> string option" where
  "benchmark_hybrid_approach b =
     (bprint ''  Hybrid approach not yet implemented for benchmarking'' b,
      Some ''Hybrid (Estimated)'')"

definition append_result :: "bench \<times> string option \<Rightarrow> bench" where
  "append_result r =
     (case r of (b, None) \<Rightarrow> b | (b, Some x) \<Rightarrow> b\<lparr>results := results b @ [x]\<rparr>)"

definition generate_report :: "bench \<Rightarrow> bench" where
  "generate_report b =
     (if results b = [] then bprint ''No benchmark results available'' b
      else b\<lparr>printed := printed b @ [Report (results b)]\<rparr>)"

definition run_all_benchmarks :: "bench_env \<Rightarrow> bench \<Rightarrow> bench" where
  "run_all_benchmarks env b0 =
     (let b1 = bprint (replicate 50 (CHR ''=''))
                 (bprint ''M720 Button Remapper Performance Benchmarks'' b0);
          b2 = (if python_exists env then
                  append_result (benchmark_python_approach env
                    (bprint (CHR 0x0A # ''Testing Python userspace approach...'') b1))
                else b1);
          b3 = (if ko_exists env then
                  append_result (benchmark_kernel_module env
                    (bprint (CHR 0x0A # ''Testing kernel module approach...'') b2))
                else b2);
          b4 = (if hybrid_exists env then
                  append_result (benchmark_hybrid_approach
                    (bprint (CHR 0x0A # ''Testing hybrid approach...'') b3))
                else b3)
      in generate_report b4)"

definition benchmark_main :: "int \<Rightarrow> bench_env \<Rightarrow> bench \<Rightarrow> bench" where
  "benchmark_main euid env b0 =
     (let b1 =
        (if euid \<noteq> 0 \<and> ''--simulate'' \<notin> set (sys_argv b0) then
           let b = bprint ''Run with --simulate for estimated results, or with sudo for real measurements.''
                     (bprint ''Note: Some benchmarks require root privileges for accurate measurement.'' b0)
           in if ''--simulate'' \<notin> set (sys_argv b) then
                (bprint ''Re-running with simulation mode...'' b)
                  \<lparr>sys_argv := sys_argv b @ [''--simulate'']\<rparr>
              else b
         else b0)
      in run_all_benchmarks env b1)"

section \<open>Vocabulary of the properties\<close>

text \<open>
  The mapped set of button codes, the events that call for an injection, and the chord
  and the announcement that belong to a mapped code.
\<close>

definition mapped_codes :: "int set" where
  "mapped_codes = {BTN_SIDE, BTN_EXTRA, BTN_FORWARD, BTN_BACK}"

definition actionable :: "input_event \<Rightarrow> bool" where
  "actionable ev = (ev_type ev = EV_KEY \<and> ev_value ev = 1 \<and> ev_code ev \<in> mapped_codes)"

definition chord_of :: "int \<Rightarrow> string" where
  "chord_of c =
     (if c = BTN_SIDE \<or> c = BTN_BACK then ''super+page_down'' else ''super+page_up'')"

definition announce :: "int \<Rightarrow> msg" where
  "announce c = (if c = BTN_SIDE \<or> c = BTN_BACK then SendingPageDown else SendingPageUp)"

text \<open>
  The exceptions \<^verbatim>\<open>send_key_combo\<close> catches, and the outcomes of the tool after which
  it returns to its caller.
\<close>

fun caught :: "exn \<Rightarrow> bool" where
  "caught (CalledProcessError rc) = True"
| "caught FileNotFoundError = True"
| "caught e = False"

fun tool_returns :: "run_outcome \<Rightarrow> bool" where
  "tool_returns (Completed rc) = True"
| "tool_returns (Raises e) = caught e"

text \<open>The two failures of the tool: it is absent, or it exits with a non-zero status.\<close>

fun tool_fails :: "run_outcome \<Rightarrow> bool" where
  "tool_fails (Completed rc) = (rc \<noteq> 0)"
| "tool_fails (Raises e) = (e = FileNotFoundError)"

text \<open>
  The turns of the loop after which it goes on, and the events a turn delivers.
\<close>

fun quiet :: "poll \<Rightarrow> bool" where
  "quiet NoData = True"
| "quiet (Data evs) = True"
| "quiet (ReadRaises e) = (e = BlockingIOError)"
| "quiet (SelectRaises e) = False"

fun events_of :: "poll \<Rightarrow> input_event list" where
  "events_of (Data evs) = evs"
| "events_of p = []"

text \<open>
  When \<^verbatim>\<open>setup_ydotool\<close> answers \<^verbatim>\<open>True\<close>, in terms of the outcomes of the child
  processes from the n-th on: \<^verbatim>\<open>pgrep\<close> finds the daemon, or it does not and the daemon
  starts.
\<close>

definition setup_succeeds :: "spawner \<Rightarrow> nat \<Rightarrow> bool" where
  "setup_succeeds tool n =
     (case tool n of
        Raises e \<Rightarrow> False
      | Completed rc \<Rightarrow>
          rc = 0 \<or> (case tool (Suc n) of Raises e \<Rightarrow> False | Completed rc' \<Rightarrow> True))"

definition device_entries :: "device list \<Rightarrow> msg list" where
  "device_entries devices =
     map (\<lambda>(i, dev). DeviceEntry i (dev_name dev) (dev_path dev)) (enumerate 0 devices)"

text \<open>Sample environments and inputs, for evaluating the program.\<close>

definition always_ok :: spawner where
  "always_ok n = Completed 0"

definition never_installed :: spawner where
  "never_installed n = Raises FileNotFoundError"

definition always_exit_1 :: spawner where
  "always_exit_1 n = Completed 1"

definition would_block :: spawner where
  "would_block n = Raises BlockingIOError"

definition press :: "int \<Rightarrow> input_event" where
  "press c = \<lparr>ev_type = EV_KEY, ev_code = c, ev_value = 1\<rparr>"

definition unpress :: "int \<Rightarrow> input_event" where
  "unpress c = \<lparr>ev_type = EV_KEY, ev_code = c, ev_value = 0\<rparr>"

definition m720 :: device where
  "m720 = \<lparr>dev_name = ''Logitech M720 Triathlon'', dev_path = ''/dev/input/event5'',
     dev_capabilities = [EV_KEY \<mapsto> [BTN_LEFT, BTN_RIGHT, BTN_MIDDLE, BTN_SIDE, BTN_EXTRA]]\<rparr>"

definition keyboard :: device where
  "keyboard = \<lparr>dev_name = ''AT Translated Set 2 keyboard'', dev_path = ''/dev/input/event0'',
     dev_capabilities = [EV_KEY \<mapsto> [1, 2, 3]]\<rparr>"

definition receiver :: device where
  "receiver = \<lparr>dev_name = ''Logitech USB Receiver'', dev_path = ''/dev/input/event3'',
     dev_capabilities = [EV_KEY \<mapsto> [1, 2, 3]]\<rparr>"

definition sample_run :: "poll list" where
  "sample_run =
     [Data [press BTN_SIDE, unpress BTN_SIDE, press BTN_LEFT], NoData,
      ReadRaises BlockingIOError, Data [press BTN_FORWARD]]"

definition bench_all :: bench_env where
  "bench_all = \<lparr>python_exists = True, ko_exists = True, hybrid_exists = True,
     popen_ok = True, insmod_ok = True\<rparr>"

definition bench_start :: "string list \<Rightarrow> bench" where
  "bench_start argv = \<lparr>sys_argv = argv, printed = [], commands = [], results = []\<rparr>"

text \<open>
  The command a mapped code leads to, what \<^verbatim>\<open>send_key_combo\<close> prints for an outcome of
  the tool, and the state after the loop body has handled an actionable event whose
  injection came back (with success or with one of the two failures): the event is
  recorded, the button and the chord are announced, the outcome is reported, the
  command and the call are recorded.
\<close>

definition argv_of :: "int \<Rightarrow> string list" where
  "argv_of c =
     (if c = BTN_SIDE \<or> c = BTN_BACK then
        [''ydotool'', ''key'', ''125:1'', ''109:1'', ''109:0'', ''125:0'']
      else [''ydotool'', ''key'', ''125:1'', ''104:1'', ''104:0'', ''125:0''])"

fun report :: "run_outcome \<Rightarrow> msg list" where
  "report (Completed rc) = (if rc \<noteq> 0 then [ErrorSendingKeyCombo rc] else [])"
| "report (Raises (CalledProcessError rc)) = [ErrorSendingKeyCombo rc]"
| "report (Raises FileNotFoundError) =
     [Line ''ydotool not found. Please install it: sudo dnf install ydotool'']"
| "report (Raises e) = []"

definition after_injection :: "spawner \<Rightarrow> input_event \<Rightarrow> world \<Rightarrow> world" where
  "after_injection tool ev w =
     w\<lparr>handled := handled w @ [ev],
       stdout := stdout w @ [ButtonPressed (ev_code ev), announce (ev_code ev)]
                          @ report (tool (length (spawned w))),
       spawned := spawned w @ [argv_of (ev_code ev)],
       combos := combos w @ [chord_of (ev_code ev)]\<rparr>"

text \<open>A tool that is absent at the first call, exits with status 1 at the second and works from then on.\<close>

definition fails_then_works :: spawner where
  "fails_then_works n =
     (if n = 0 then Raises FileNotFoundError else if n = 1 then Completed 1 else Completed 0)"

text \<open>A state in which the device has been opened and the loop is about to be entered.\<close>

definition loop_entry :: world where
  "loop_entry = init_world\<lparr>device_open := True\<rparr>"

section \<open>Basic facts\<close>

lemmas ecodes_defs =
  EV_KEY_def BTN_LEFT_def BTN_RIGHT_def BTN_MIDDLE_def
  BTN_SIDE_def BTN_EXTRA_def BTN_FORWARD_def BTN_BACK_def

lemma print_simps [simp]:
  "stdout (print m w) = stdout w @ [m]"
  "spawned (print m w) = spawned w"
  "combos (print m w) = combos w"
  "handled (print m w) = handled w"
  "registered (print m w) = registered w"
  "device_open (print m w) = device_open w"
  "selector_open (print m w) = selector_open w"
  by (simp_all add: print_def)

lemma fold_print_simps [simp]:
  "stdout (fold print ms w) = stdout w @ ms"
  "spawned (fold print ms w) = spawned w"
  "combos (fold print ms w) = combos w"
  "handled (fold print ms w) = handled w"
  "registered (fold print ms w) = registered w"
  "device_open (fold print ms w) = device_open w"
  "selector_open (fold print ms w) = selector_open w"
  by (induction ms arbitrary: w; simp)+

lemma release_simps [simp]:
  "stdout (release w) = stdout w"
  "spawned (release w) = spawned w"
  "combos (release w) = combos w"
  "handled (release w) = handled w"
  "registered (release w) = False"
  "device_open (release w) = device_open w"
  "selector_open (release w) = False"
  by (simp_all add: release_def)

subsection \<open>What each function leaves alone\<close>

lemma subprocess_run_fields [simp]:
  "stdout (fst (subprocess_run tool argv chk w)) = stdout w"
  "spawned (fst (subprocess_run tool argv chk w)) = spawned w @ [argv]"
  "combos (fst (subprocess_run tool argv chk w)) = combos w"
  "handled (fst (subprocess_run tool argv chk w)) = handled w"
  "registered (fst (subprocess_run tool argv chk w)) = registered w"
  "device_open (fst (subprocess_run tool argv chk w)) = device_open w"
  "selector_open (fst (subprocess_run tool argv chk w)) = selector_open w"
  by (simp_all add: subprocess_run_def Let_def split: run_outcome.splits)

lemma send_key_combo_except_fields [simp]:
  "spawned (fst (send_key_combo_except r)) = spawned (fst r)"
  "combos (fst (send_key_combo_except r)) = combos (fst r)"
  "handled (fst (send_key_combo_except r)) = handled (fst r)"
  "registered (fst (send_key_combo_except r)) = registered (fst r)"
  "device_open (fst (send_key_combo_except r)) = device_open (fst r)"
  "selector_open (fst (send_key_combo_except r)) = selector_open (fst r)"
  by (cases r rule: send_key_combo_except.cases; simp)+

lemma send_key_combo_fields [simp]:
  "combos (fst (send_key_combo tool keys w)) = combos w @ [keys]"
  "handled (fst (send_key_combo tool keys w)) = handled w"
  "registered (fst (send_key_combo tool keys w)) = registered w"
  "device_open (fst (send_key_combo tool keys w)) = device_open w"
  "selector_open (fst (send_key_combo tool keys w)) = selector_open w"
  by (simp_all add: send_key_combo_def Let_def)

lemma fst_discard [simp]: "fst (discard r) = fst r"
  by (simp add: discard_def split: prod.splits sum.splits)

lemma snd_discard_Inr [simp]: "snd r = Inr b \<Longrightarrow> snd (discard r) = Inr ()"
  by (cases r) (simp add: discard_def)

lemma snd_discard_Inl [simp]: "snd r = Inl e \<Longrightarrow> snd (discard r) = Inl e"
  by (cases r) (simp add: discard_def)

text \<open>
  The body of the loop in one line: an actionable event is announced and its chord is
  sent; any other event changes nothing.
\<close>

lemma handle_event_eq:
  "handle_event tool ev w =
     (if actionable ev then
        discard (send_key_combo tool (chord_of (ev_code ev))
          (print (announce (ev_code ev)) (print (ButtonPressed (ev_code ev)) w)))
      else (w, Inr ()))"
  by (simp add: handle_event_def actionable_def mapped_codes_def chord_of_def announce_def
        ecodes_defs Let_def)

lemma handle_event_combos:
  "combos (fst (handle_event tool ev w)) =
     combos w @ (if actionable ev then [chord_of (ev_code ev)] else [])"
  by (simp add: handle_event_eq)

lemma handle_event_fields [simp]:
  "handled (fst (handle_event tool ev w)) = handled w"
  "registered (fst (handle_event tool ev w)) = registered w"
  "device_open (fst (handle_event tool ev w)) = device_open w"
  "selector_open (fst (handle_event tool ev w)) = selector_open w"
  by (simp_all add: handle_event_eq)

text \<open>What one event adds to the two traces, whether or not the body raises.\<close>

lemma process_events_Cons:
  "process_events tool (ev # evs) w =
     (let r = handle_event tool ev (w\<lparr>handled := handled w @ [ev]\<rparr>) in
      case snd r of Inl e \<Rightarrow> (fst r, Inl e) | Inr u \<Rightarrow> process_events tool evs (fst r))"
  by (simp add: Let_def split: prod.splits sum.splits)

lemma process_events_traces:
  "\<exists>hs. handled (fst (process_events tool evs w)) = handled w @ hs \<and>
        combos (fst (process_events tool evs w)) =
          combos w @ map (chord_of \<circ> ev_code) (filter actionable hs)"
proof (induction evs arbitrary: w)
  case Nil
  show ?case by simp
next
  case (Cons ev evs)
  define r where "r = handle_event tool ev (w\<lparr>handled := handled w @ [ev]\<rparr>)"
  have h: "handled (fst r) = handled w @ [ev]"
    by (simp add: r_def)
  have c: "combos (fst r) = combos w @ map (chord_of \<circ> ev_code) (filter actionable [ev])"
    by (simp add: r_def handle_event_combos)
  have pe: "process_events tool (ev # evs) w =
      (case snd r of Inl e \<Rightarrow> (fst r, Inl e) | Inr u \<Rightarrow> process_events tool evs (fst r))"
    unfolding r_def process_events_Cons Let_def ..
  show ?case
  proof (cases "snd r")
    case (Inl e)
    have "handled (fst (process_events tool (ev # evs) w)) = handled w @ [ev]"
      by (simp only: pe Inl sum.case fst_conv h)
    moreover have "combos (fst (process_events tool (ev # evs) w)) =
        combos w @ map (chord_of \<circ> ev_code) (filter actionable [ev])"
      by (simp only: pe Inl sum.case fst_conv c)
    ultimately show ?thesis by blast
  next
    case (Inr u)
    from Cons.IH[of "fst r"] obtain hs where
      hs1: "handled (fst (process_events tool evs (fst r))) = handled (fst r) @ hs" and
      hs2: "combos (fst (process_events tool evs (fst r))) =
              combos (fst r) @ map (chord_of \<circ> ev_code) (filter actionable hs)"
      by blast
    have "handled (fst (process_events tool (ev # evs) w)) = handled w @ (ev # hs)"
      by (simp only: pe Inr sum.case hs1 h) simp
    moreover have "combos (fst (process_events tool (ev # evs) w)) =
        combos w @ map (chord_of \<circ> ev_code) (filter actionable (ev # hs))"
      by (simp only: pe Inr sum.case hs2 c) simp
    ultimately show ?thesis by blast
  qed
qed

lemma process_events_registered [simp]:
  "registered (fst (process_events tool evs w)) = registered w"
  by (induction evs arbitrary: w)
     (simp_all add: process_events_Cons Let_def del: process_events.simps(2) split: sum.splits)

lemma process_events_selector_open [simp]:
  "selector_open (fst (process_events tool evs w)) = selector_open w"
  by (induction evs arbitrary: w)
     (simp_all add: process_events_Cons Let_def del: process_events.simps(2) split: sum.splits)

lemma process_events_device_open [simp]:
  "device_open (fst (process_events tool evs w)) = device_open w"
  by (induction evs arbitrary: w)
     (simp_all add: process_events_Cons Let_def del: process_events.simps(2) split: sum.splits)

lemma event_loop_device_open:
  "device_open (fst (event_loop tool polls w)) = device_open w"
  by (induction tool polls w rule: event_loop.induct)
     (auto split: prod.splits sum.splits dest: arg_cong[where f = "\<lambda>p. device_open (fst p)"])

lemma event_loop_registered:
  "registered (fst (event_loop tool polls w)) = registered w"
  by (induction tool polls w rule: event_loop.induct)
     (auto split: prod.splits sum.splits dest: arg_cong[where f = "\<lambda>p. registered (fst p)"])

lemma event_loop_selector_open:
  "selector_open (fst (event_loop tool polls w)) = selector_open w"
  by (induction tool polls w rule: event_loop.induct)
     (auto split: prod.splits sum.splits dest: arg_cong[where f = "\<lambda>p. selector_open (fst p)"])

lemma event_loop_never_returns: "snd (event_loop tool polls w) \<noteq> Returned"
  by (induction tool polls w rule: event_loop.induct) (auto split: prod.splits sum.splits)

lemma event_loop_traces:
  "\<exists>hs. handled (fst (event_loop tool polls w)) = handled w @ hs \<and>
        combos (fst (event_loop tool polls w)) =
          combos w @ map (chord_of \<circ> ev_code) (filter actionable hs)"
proof (induction polls arbitrary: w)
  case Nil
  show ?case by simp
next
  case (Cons p ps)
  show ?case
  proof (cases p)
    case NoData
    then show ?thesis using Cons.IH[of w] by simp
  next
    case (SelectRaises e)
    then show ?thesis by simp
  next
    case (ReadRaises e)
    then show ?thesis using Cons.IH[of w] by simp
  next
    case (Data evs)
    define w1 where "w1 = fst (process_events tool evs w)"
    obtain hs1 where
      a1: "handled w1 = handled w @ hs1" and
      a2: "combos w1 = combos w @ map (chord_of \<circ> ev_code) (filter actionable hs1)"
      using process_events_traces[of tool evs w] unfolding w1_def by blast
    obtain hs2 where
      b1: "handled (fst (event_loop tool ps w1)) = handled w1 @ hs2" and
      b2: "combos (fst (event_loop tool ps w1)) =
             combos w1 @ map (chord_of \<circ> ev_code) (filter actionable hs2)"
      using Cons.IH[of w1] by blast
    have el: "event_loop tool (p # ps) w = event_loop tool ps w1 \<or>
              fst (event_loop tool (p # ps) w) = w1"
      unfolding Data w1_def by (simp split: prod.splits sum.splits)
    from el show ?thesis
    proof
      assume "event_loop tool (p # ps) w = event_loop tool ps w1"
      then have "handled (fst (event_loop tool (p # ps) w)) = handled w @ (hs1 @ hs2)"
        and "combos (fst (event_loop tool (p # ps) w)) =
               combos w @ map (chord_of \<circ> ev_code) (filter actionable (hs1 @ hs2))"
        by (simp_all add: a1 a2 b1 b2)
      then show ?thesis by blast
    next
      assume "fst (event_loop tool (p # ps) w) = w1"
      then show ?thesis using a1 a2 by auto
    qed
  qed
qed

lemma handle_mouse_events_traces:
  "\<exists>hs. handled (fst (handle_mouse_events tool d polls w)) = handled w @ hs \<and>
        combos (fst (handle_mouse_events tool d polls w)) =
          combos w @ map (chord_of \<circ> ev_code) (filter actionable hs)"
proof -
  define w2 where "w2 = (fold print (banner d) w)\<lparr>selector_open := True, registered := True\<rparr>"
  have f: "handled (fst (handle_mouse_events tool d polls w)) = handled (fst (event_loop tool polls w2))"
    "combos (fst (handle_mouse_events tool d polls w)) = combos (fst (event_loop tool polls w2))"
    unfolding handle_mouse_events_def Let_def w2_def
    by (simp_all split: prod.splits status.splits)
  have "handled w2 = handled w" "combos w2 = combos w"
    by (simp_all add: w2_def)
  then show ?thesis
    using event_loop_traces[of tool polls w2] unfolding f by simp
qed

lemma send_key_combo_spawned:
  "spawned (fst (send_key_combo tool keys w)) =
     spawned w @
       (if keys = ''super+page_up'' then
          [[''ydotool'', ''key'', ''125:1'', ''104:1'', ''104:0'', ''125:0'']]
        else if keys = ''super+page_down'' then
          [[''ydotool'', ''key'', ''125:1'', ''109:1'', ''109:0'', ''125:0'']]
        else [])"
  by (simp add: send_key_combo_def Let_def)

lemma event_loop_append:
  "event_loop tool (ps @ qs) w =
     (case event_loop tool ps w of
        (w', Running) \<Rightarrow> event_loop tool qs w'
      | (w', st) \<Rightarrow> (w', st))"
  by (induction tool ps w rule: event_loop.induct)
     (simp_all split: prod.splits sum.splits status.splits)

subsection \<open>Runs in which nothing escapes\<close>

lemma tool_fails_returns: "tool_fails out \<Longrightarrow> tool_returns out"
  by (cases out) simp_all

lemma send_key_combo_returns:
  assumes "tool_returns (tool (length (spawned w)))"
  shows "\<exists>b. snd (send_key_combo tool keys w) = Inr b"
proof (cases "tool (length (spawned w))")
  case (Completed rc)
  then show ?thesis
    by (auto simp: send_key_combo_def subprocess_run_def Let_def)
next
  case (Raises e)
  with assms have "caught e" by simp
  then show ?thesis using Raises
    by (cases e) (auto simp: send_key_combo_def subprocess_run_def Let_def)
qed

lemma handle_event_returns:
  assumes "\<forall>n. tool_returns (tool n)"
  shows "snd (handle_event tool ev w) = Inr ()"
proof (cases "actionable ev")
  case False
  then show ?thesis by (simp add: handle_event_eq)
next
  case True
  obtain b where "snd (send_key_combo tool (chord_of (ev_code ev))
      (print (announce (ev_code ev)) (print (ButtonPressed (ev_code ev)) w))) = Inr b"
    using send_key_combo_returns assms by blast
  then show ?thesis using True by (simp add: handle_event_eq)
qed

lemma process_events_complete:
  assumes "\<forall>n. tool_returns (tool n)"
  shows "snd (process_events tool evs w) = Inr () \<and>
         handled (fst (process_events tool evs w)) = handled w @ evs \<and>
         combos (fst (process_events tool evs w)) =
           combos w @ map (chord_of \<circ> ev_code) (filter actionable evs)"
proof (induction evs arbitrary: w)
  case Nil
  show ?case by simp
next
  case (Cons ev evs)
  define r where "r = handle_event tool ev (w\<lparr>handled := handled w @ [ev]\<rparr>)"
  have s: "snd r = Inr ()" unfolding r_def by (rule handle_event_returns[OF assms])
  have h: "handled (fst r) = handled w @ [ev]" by (simp add: r_def)
  have c: "combos (fst r) = combos w @ map (chord_of \<circ> ev_code) (filter actionable [ev])"
    by (simp add: r_def handle_event_combos)
  have pe: "process_events tool (ev # evs) w = process_events tool evs (fst r)"
    unfolding process_events_Cons Let_def r_def[symmetric] by (simp add: s)
  show ?case unfolding pe using Cons.IH[of "fst r"] by (simp add: h c)
qed

lemma event_loop_complete:
  assumes "\<forall>n. tool_returns (tool n)" and "\<forall>p\<in>set polls. quiet p"
  shows "snd (event_loop tool polls w) = Running \<and>
         handled (fst (event_loop tool polls w)) = handled w @ concat (map events_of polls) \<and>
         combos (fst (event_loop tool polls w)) =
           combos w @ map (chord_of \<circ> ev_code) (filter actionable (concat (map events_of polls)))"
  using assms(2)
proof (induction polls arbitrary: w)
  case Nil
  show ?case by simp
next
  case (Cons p ps)
  then have q: "quiet p" and qs: "\<forall>p\<in>set ps. quiet p" by simp_all
  show ?case
  proof (cases p)
    case NoData
    then show ?thesis using Cons.IH[OF qs, of w] by simp
  next
    case (SelectRaises e)
    then show ?thesis using q by simp
  next
    case (ReadRaises e)
    then show ?thesis using q Cons.IH[OF qs, of w] by simp
  next
    case (Data evs)
    define w1 where "w1 = fst (process_events tool evs w)"
    have pe: "process_events tool evs w = (w1, Inr ())"
      using process_events_complete[OF assms(1), of evs w] unfolding w1_def
      by (cases "process_events tool evs w") simp
    have a: "handled w1 = handled w @ evs"
      "combos w1 = combos w @ map (chord_of \<circ> ev_code) (filter actionable evs)"
      using process_events_complete[OF assms(1), of evs w] unfolding w1_def by simp_all
    have el: "event_loop tool (p # ps) w = event_loop tool ps w1"
      unfolding Data by (simp add: pe)
    show ?thesis unfolding el using Cons.IH[OF qs, of w1] by (simp add: a Data)
  qed
qed

lemma handle_mouse_events_complete:
  assumes "\<forall>n. tool_returns (tool n)" and "\<forall>p\<in>set polls. quiet p"
  shows "snd (handle_mouse_events tool d polls w) = Running \<and>
         handled (fst (handle_mouse_events tool d polls w)) =
           handled w @ concat (map events_of polls) \<and>
         combos (fst (handle_mouse_events tool d polls w)) =
           combos w @ map (chord_of \<circ> ev_code) (filter actionable (concat (map events_of polls)))"
proof -
  define w2 where "w2 = (fold print (banner d) w)\<lparr>selector_open := True, registered := True\<rparr>"
  obtain w3 where el: "event_loop tool polls w2 = (w3, Running)"
    using event_loop_complete[OF assms, of w2] by (cases "event_loop tool polls w2") simp
  have "handled w2 = handled w" "combos w2 = combos w" by (simp_all add: w2_def)
  then have "handled w3 = handled w @ concat (map events_of polls)"
    "combos w3 = combos w @ map (chord_of \<circ> ev_code) (filter actionable (concat (map events_of polls)))"
    using event_loop_complete[OF assms, of w2] unfolding el by simp_all
  then show ?thesis
    unfolding handle_mouse_events_def Let_def w2_def[symmetric] el by simp
qed

lemma sample_facts:
  "actionable (press BTN_SIDE)" "actionable (press BTN_FORWARD)" "actionable (press BTN_EXTRA)"
  "\<not> actionable (unpress BTN_SIDE)" "\<not> actionable (press BTN_LEFT)"
  by (simp_all add: actionable_def press_def unpress_def mapped_codes_def ecodes_defs)

subsection \<open>Finding the device, setting up the daemon\<close>

lemma mouse_button_test:
  "list_ex (\<lambda>btn. btn \<in> set keys) mouse_buttons = list_ex (\<lambda>k. k \<in> set mouse_buttons) keys"
  by (auto simp: list_ex_iff)

lemma find_loop_find: "snd (find_loop ds w) = List.find is_m720 ds"
  by (induction ds arbitrary: w)
     (simp_all add: is_m720_def Let_def mouse_button_test split: option.splits)

lemma find_loop_stdout: "\<exists>ms. stdout (fst (find_loop ds w)) = stdout w @ ms"
proof (induction ds arbitrary: w)
  case Nil
  show ?case by simp
next
  case (Cons d ds)
  define w1 where "w1 = print (DevicePath (dev_path d)) (print (FoundPotential (dev_name d)) w)"
  obtain ms0 where a: "stdout (fst (find_loop ds w)) = stdout w @ ms0" using Cons.IH by blast
  obtain ms1 where b: "stdout (fst (find_loop ds w1)) = stdout w1 @ ms1" using Cons.IH by blast
  have c: "stdout w1 = stdout w @ [FoundPotential (dev_name d), DevicePath (dev_path d)]"
    by (simp add: w1_def)
  have "fst (find_loop (d # ds) w) = fst (find_loop ds w) \<or>
        fst (find_loop (d # ds) w) = fst (find_loop ds w1) \<or>
        (\<exists>m. fst (find_loop (d # ds) w) = print m w1)"
    by (auto simp: Let_def w1_def split: option.splits)
  then show ?case using a b c by auto
qed

lemma setup_ydotool_True:
  "setup_succeeds tool (length (spawned w)) \<Longrightarrow> snd (setup_ydotool tool w) = Inr True"
  by (auto simp: setup_succeeds_def setup_ydotool_def subprocess_run_def subprocess_Popen_def
        Let_def split: run_outcome.splits)

lemma setup_ydotool_stdout: "\<exists>ms. stdout (fst (setup_ydotool tool w)) = stdout w @ ms"
  by (auto simp: setup_ydotool_def subprocess_run_def subprocess_Popen_def is_Exception_def
        Let_def split: run_outcome.splits)

lemma sample_devices:
  "\<not> is_m720 keyboard" "\<not> is_m720 receiver" "is_m720 m720"
  by (simp_all add: is_m720_def keyboard_def receiver_def m720_def mouse_buttons_def
        ecodes_defs sublist_Cons_right)

subsection \<open>The benchmark: commands and results\<close>

lemma bprint_fields [simp]:
  "commands (bprint s b) = commands b"
  "results (bprint s b) = results b"
  "sys_argv (bprint s b) = sys_argv b"
  by (simp_all add: bprint_def)

lemma command_fields [simp]:
  "commands (command argv b) = commands b @ [argv]"
  "results (command argv b) = results b"
  by (simp_all add: command_def)

lemma append_result_fields [simp]:
  "commands (append_result r) = commands (fst r)"
  "results (append_result r) = results (fst r) @ (case snd r of None \<Rightarrow> [] | Some x \<Rightarrow> [x])"
  by (cases r; cases "snd r"; simp add: append_result_def)+

lemma generate_report_fields [simp]:
  "commands (generate_report b) = commands b"
  "results (generate_report b) = results b"
  by (simp_all add: generate_report_def)

lemma benchmark_python_approach_fields [simp]:
  "commands (fst (benchmark_python_approach env b)) =
     commands b @ [[''sudo'', ''python3'', ''../m720_button_remapper_safe.py'']]"
  "results (fst (benchmark_python_approach env b)) = results b"
  "snd (benchmark_python_approach env b) =
     (if popen_ok env then Some ''Python Userspace'' else None)"
  by (simp_all add: benchmark_python_approach_def Let_def)

lemma benchmark_kernel_module_fields [simp]:
  "commands (fst (benchmark_kernel_module env b)) =
     commands b @ [[''sudo'', ''insmod'', ''../kernel-module/c-implementation/m720_remapper.ko''],
                   [''sudo'', ''rmmod'', ''m720_remapper'']]"
  "results (fst (benchmark_kernel_module env b)) = results b"
  "snd (benchmark_kernel_module env b) =
     (if insmod_ok env then Some ''Kernel Module'' else None)"
  by (simp_all add: benchmark_kernel_module_def Let_def)

lemma benchmark_hybrid_approach_fields [simp]:
  "commands (fst (benchmark_hybrid_approach b)) = commands b"
  "results (fst (benchmark_hybrid_approach b)) = results b"
  "snd (benchmark_hybrid_approach b) = Some ''Hybrid (Estimated)''"
  by (simp_all add: benchmark_hybrid_approach_def)

lemma run_all_benchmarks_commands:
  "commands (run_all_benchmarks env b) =
     commands b @
     (if python_exists env then [[''sudo'', ''python3'', ''../m720_button_remapper_safe.py'']]
      else []) @
     (if ko_exists env then
        [[''sudo'', ''insmod'', ''../kernel-module/c-implementation/m720_remapper.ko''],
         [''sudo'', ''rmmod'', ''m720_remapper'']]
      else [])"
  by (simp add: run_all_benchmarks_def Let_def)

lemma run_all_benchmarks_results:
  "results (run_all_benchmarks env b) =
     results b @
     (if python_exists env \<and> popen_ok env then [''Python Userspace''] else []) @
     (if ko_exists env \<and> insmod_ok env then [''Kernel Module''] else []) @
     (if hybrid_exists env then [''Hybrid (Estimated)''] else [])"
  by (simp add: run_all_benchmarks_def Let_def)

subsection \<open>An injection that comes back, step by step\<close>

lemma tool_fails_report: "tool_fails out \<Longrightarrow> report out \<noteq> []"
  by (cases out) auto

lemma send_key_combo_chord:
  assumes "tool_returns (tool (length (spawned w)))"
  shows "fst (send_key_combo tool (chord_of c) w) =
           w\<lparr>stdout := stdout w @ report (tool (length (spawned w))),
              spawned := spawned w @ [argv_of c],
              combos := combos w @ [chord_of c]\<rparr>"
proof (cases "tool (length (spawned w))")
  case (Completed rc)
  then show ?thesis
    by (simp add: send_key_combo_def subprocess_run_def Let_def chord_of_def argv_of_def print_def)
next
  case (Raises e)
  with assms have "caught e" by simp
  then show ?thesis using Raises
    by (cases e)
       (simp_all add: send_key_combo_def subprocess_run_def Let_def chord_of_def argv_of_def
          print_def)
qed

lemma handle_event_step:
  assumes "actionable ev" and "tool_returns (tool (length (spawned w)))"
  shows "handle_event tool ev w =
           (w\<lparr>stdout := stdout w @ [ButtonPressed (ev_code ev), announce (ev_code ev)]
                              @ report (tool (length (spawned w))),
              spawned := spawned w @ [argv_of (ev_code ev)],
              combos := combos w @ [chord_of (ev_code ev)]\<rparr>, Inr ())"
proof -
  define w1 where "w1 = print (announce (ev_code ev)) (print (ButtonPressed (ev_code ev)) w)"
  have sp: "spawned w1 = spawned w" by (simp add: w1_def)
  have r: "tool_returns (tool (length (spawned w1)))" using assms(2) by (simp add: sp)
  obtain b where b: "snd (send_key_combo tool (chord_of (ev_code ev)) w1) = Inr b"
    using send_key_combo_returns[of tool w1 "chord_of (ev_code ev)"] r by blast
  have f: "fst (send_key_combo tool (chord_of (ev_code ev)) w1) =
      w1\<lparr>stdout := stdout w1 @ report (tool (length (spawned w1))),
         spawned := spawned w1 @ [argv_of (ev_code ev)],
         combos := combos w1 @ [chord_of (ev_code ev)]\<rparr>"
    using send_key_combo_chord[of tool w1 "ev_code ev"] r by blast
  have "handle_event tool ev w = discard (send_key_combo tool (chord_of (ev_code ev)) w1)"
    using assms(1) by (simp add: handle_event_eq w1_def)
  also have "\<dots> = (fst (send_key_combo tool (chord_of (ev_code ev)) w1), Inr ())"
    using b by (cases "send_key_combo tool (chord_of (ev_code ev)) w1") (simp add: discard_def)
  finally show ?thesis
    unfolding f by (simp add: w1_def print_def)
qed

lemma handle_event_spawned:
  "spawned (fst (handle_event tool ev w)) =
     spawned w @ (if actionable ev then [argv_of (ev_code ev)] else [])"
  by (simp add: handle_event_eq send_key_combo_spawned chord_of_def argv_of_def)

lemma process_events_step:
  assumes "actionable ev" and "tool_returns (tool (length (spawned w)))"
  shows "process_events tool (ev # evs) w = process_events tool evs (after_injection tool ev w)"
proof -
  define w0 where "w0 = w\<lparr>handled := handled w @ [ev]\<rparr>"
  have "tool_returns (tool (length (spawned w0)))" using assms(2) by (simp add: w0_def)
  from handle_event_step[of ev tool w0, OF assms(1) this]
  have "handle_event tool ev w0 = (after_injection tool ev w, Inr ())"
    by (simp add: w0_def after_injection_def)
  then show ?thesis
    unfolding process_events_Cons Let_def w0_def[symmetric] by simp
qed

lemma process_events_spawned:
  assumes "\<forall>n. tool_returns (tool n)"
  shows "spawned (fst (process_events tool evs w)) =
           spawned w @ map (argv_of \<circ> ev_code) (filter actionable evs)"
proof (induction evs arbitrary: w)
  case Nil
  show ?case by simp
next
  case (Cons ev evs)
  define r where "r = handle_event tool ev (w\<lparr>handled := handled w @ [ev]\<rparr>)"
  have s: "snd r = Inr ()" unfolding r_def by (rule handle_event_returns[OF assms])
  have c: "spawned (fst r) = spawned w @ map (argv_of \<circ> ev_code) (filter actionable [ev])"
    by (simp add: r_def handle_event_spawned)
  have pe: "process_events tool (ev # evs) w = process_events tool evs (fst r)"
    unfolding process_events_Cons Let_def r_def[symmetric] by (simp add: s)
  show ?case unfolding pe using Cons.IH[of "fst r"] by (simp add: c)
qed

lemma event_loop_spawned:
  assumes "\<forall>n. tool_returns (tool n)" and "\<forall>p\<in>set polls. quiet p"
  shows "spawned (fst (event_loop tool polls w)) =
           spawned w @ map (argv_of \<circ> ev_code) (filter actionable (concat (map events_of polls)))"
  using assms(2)
proof (induction polls arbitrary: w)
  case Nil
  show ?case by simp
next
  case (Cons p ps)
  then have q: "quiet p" and qs: "\<forall>p\<in>set ps. quiet p" by simp_all
  show ?case
  proof (cases p)
    case NoData
    then show ?thesis using Cons.IH[OF qs, of w] by simp
  next
    case (SelectRaises e)
    then show ?thesis using q by simp
  next
    case (ReadRaises e)
    then show ?thesis using q Cons.IH[OF qs, of w] by simp
  next
    case (Data evs)
    define w1 where "w1 = fst (process_events tool evs w)"
    have pe: "process_events tool evs w = (w1, Inr ())"
      using process_events_complete[OF assms(1), of evs w] unfolding w1_def
      by (cases "process_events tool evs w") simp
    have a: "spawned w1 = spawned w @ map (argv_of \<circ> ev_code) (filter actionable evs)"
      unfolding w1_def by (rule process_events_spawned[OF assms(1)])
    have el: "event_loop tool (p # ps) w = event_loop tool ps w1"
      unfolding Data by (simp add: pe)
    show ?thesis unfolding el using Cons.IH[OF qs, of w1] by (simp add: a Data)
  qed
qed

lemma handle_mouse_events_spawned:
  assumes "\<forall>n. tool_returns (tool n)" and "\<forall>p\<in>set polls. quiet p"
  shows "spawned (fst (handle_mouse_events tool d polls w)) =
           spawned w @ map (argv_of \<circ> ev_code) (filter actionable (concat (map events_of polls)))"
proof -
  define w2 where "w2 = (fold print (banner d) w)\<lparr>selector_open := True, registered := True\<rparr>"
  obtain w3 where el: "event_loop tool polls w2 = (w3, Running)"
    using event_loop_complete[OF assms, of w2] by (cases "event_loop tool polls w2") simp
  have "spawned w2 = spawned w" by (simp add: w2_def)
  then have "spawned w3 =
      spawned w @ map (argv_of \<circ> ev_code) (filter actionable (concat (map events_of polls)))"
    using event_loop_spawned[OF assms, of w2] unfolding el by simp
  then show ?thesis
    unfolding handle_mouse_events_def Let_def w2_def[symmetric] el by simp
qed

subsection \<open>The device across the loop\<close>

lemma main_finds_m720:
  "find_m720_device (Inr [keyboard, m720]) w =
     ((print (HasMouseButtons [BTN_LEFT, BTN_RIGHT, BTN_MIDDLE, BTN_SIDE, BTN_EXTRA])
        (print (DevicePath ''/dev/input/event5'')
           (print (FoundPotential ''Logitech M720 Triathlon'') w)))\<lparr>device_open := True\<rparr>,
      Inr (Some m720))"
  by (simp add: find_m720_device_def keyboard_def m720_def mouse_buttons_def ecodes_defs
        sublist_Cons_right)

lemma handle_mouse_events_device_open:
  "device_open (fst (handle_mouse_events tool d polls w)) = device_open w"
proof -
  define w2 where "w2 = (fold print (banner d) w)\<lparr>selector_open := True, registered := True\<rparr>"
  obtain w3 st where el: "event_loop tool polls w2 = (w3, st)"
    by (cases "event_loop tool polls w2")
  have r: "device_open w3 = device_open w"
    using event_loop_device_open[of tool polls w2] unfolding el by (simp add: w2_def)
  show ?thesis
    unfolding handle_mouse_events_def Let_def w2_def[symmetric] el
    by (cases st) (simp_all add: r)
qed

lemma interrupted_run:
  "snd (handle_mouse_events tool d [NoData, SelectRaises KeyboardInterrupt] w) = Returned"
  "\<not> registered (fst (handle_mouse_events tool d [NoData, SelectRaises KeyboardInterrupt] w))"
  "\<not> selector_open (fst (handle_mouse_events tool d [NoData, SelectRaises KeyboardInterrupt] w))"
  by (simp_all add: handle_mouse_events_def)

lemma failed_run:
  "snd (handle_mouse_events tool d [ReadRaises OtherException] w) = Raised OtherException"
  by (simp add: handle_mouse_events_def)

section \<open>The claims\<close>

text \<open>
  Claim C1. Over any run of the dispatch loop, the calls of \<^verbatim>\<open>send_key_combo\<close> are
  exactly one per processed event that is a press (\<^verbatim>\<open>EV_KEY\<close>, value 1) of a mapped
  code, in order and with the chord of that code; here "processed" means that the body
  of the \<^verbatim>\<open>for\<close> loop was entered for the event. When nothing escapes (the tool only
  succeeds, is absent or exits non-zero, and no read or select raises anything but
  \<^verbatim>\<open>BlockingIOError\<close>), every event delivered is processed, so the number of calls is
  the number of mapped presses delivered. An event whose value is not 1 (a release, a
  repeat) never leads to a call.
\<close>

theorem injections_match_mapped_presses:
  "(\<exists>hs. handled (fst (handle_mouse_events tool d polls w)) = handled w @ hs \<and>
         combos (fst (handle_mouse_events tool d polls w)) =
           combos w @ map (chord_of \<circ> ev_code) (filter actionable hs)) \<and>
   ((\<forall>n. tool_returns (tool n)) \<and> (\<forall>p\<in>set polls. quiet p) \<longrightarrow>
      handled (fst (handle_mouse_events tool d polls w)) =
        handled w @ concat (map events_of polls) \<and>
      length (combos (fst (handle_mouse_events tool d polls w))) =
        length (combos w) + length (filter actionable (concat (map events_of polls)))) \<and>
   (ev_value ev \<noteq> 1 \<longrightarrow> combos (fst (handle_event tool ev w)) = combos w)"
proof (intro conjI impI)
  show "\<exists>hs. handled (fst (handle_mouse_events tool d polls w)) = handled w @ hs \<and>
         combos (fst (handle_mouse_events tool d polls w)) =
           combos w @ map (chord_of \<circ> ev_code) (filter actionable hs)"
    by (rule handle_mouse_events_traces)
next
  assume a: "(\<forall>n. tool_returns (tool n)) \<and> (\<forall>p\<in>set polls. quiet p)"
  then show "handled (fst (handle_mouse_events tool d polls w)) =
        handled w @ concat (map events_of polls)"
    using handle_mouse_events_complete[of tool polls d w] by blast
  from a have "combos (fst (handle_mouse_events tool d polls w)) =
      combos w @ map (chord_of \<circ> ev_code) (filter actionable (concat (map events_of polls)))"
    using handle_mouse_events_complete[of tool polls d w] by blast
  then show "length (combos (fst (handle_mouse_events tool d polls w))) =
        length (combos w) + length (filter actionable (concat (map events_of polls)))"
    by simp
next
  assume "ev_value ev \<noteq> 1"
  then have "\<not> actionable ev" by (simp add: actionable_def)
  then show "combos (fst (handle_event tool ev w)) = combos w"
    by (simp add: handle_event_eq)
qed

theorem injections_match_mapped_presses_witness:
  "(\<forall>n. tool_returns (always_ok n)) \<and> list_all quiet sample_run \<and>
   ev_value (unpress BTN_SIDE) \<noteq> 1 \<and>
   handled (fst (handle_mouse_events always_ok m720 sample_run init_world)) =
     [press BTN_SIDE, unpress BTN_SIDE, press BTN_LEFT, press BTN_FORWARD] \<and>
   length (combos (fst (handle_mouse_events always_ok m720 sample_run init_world))) = 2 \<and>
   combos (fst (handle_event always_ok (unpress BTN_SIDE) init_world)) = []"
proof -
  have t: "\<forall>n. tool_returns (always_ok n)" by (simp add: always_ok_def)
  have q: "\<forall>p\<in>set sample_run. quiet p" by (simp add: sample_run_def)
  have v: "ev_value (unpress BTN_SIDE) \<noteq> 1" by (simp add: unpress_def)
  have e: "concat (map events_of sample_run) =
      [press BTN_SIDE, unpress BTN_SIDE, press BTN_LEFT, press BTN_FORWARD]"
    by (simp add: sample_run_def)
  have i: "handled init_world = []" "combos init_world = []" by (simp_all add: init_world_def)
  from injections_match_mapped_presses
    [of always_ok m720 sample_run init_world "unpress BTN_SIDE"] t q v
  have "handled (fst (handle_mouse_events always_ok m720 sample_run init_world)) =
          handled init_world @ concat (map events_of sample_run)"
    and "length (combos (fst (handle_mouse_events always_ok m720 sample_run init_world))) =
          length (combos init_world) + length (filter actionable (concat (map events_of sample_run)))"
    and "combos (fst (handle_event always_ok (unpress BTN_SIDE) init_world)) = combos init_world"
    by blast+
  then show ?thesis
    using t v q by (simp add: e i sample_facts list_all_iff)
qed

text \<open>
  Claim C2. The mapping from button codes to actions respects the aliases:
  \<^verbatim>\<open>BTN_SIDE\<close> and \<^verbatim>\<open>BTN_BACK\<close> both lead to one call of \<^verbatim>\<open>send_key_combo\<close> with
  the chord Super + Page Down, \<^verbatim>\<open>BTN_EXTRA\<close> and \<^verbatim>\<open>BTN_FORWARD\<close> both to one call with
  Super + Page Up; the two codes of a pair run the same command, and each mapped code
  leads to exactly one action.
\<close>

theorem alias_codes_share_chord:
  "combos (fst (handle_event tool (press BTN_SIDE) w)) = combos w @ [''super+page_down''] \<and>
   combos (fst (handle_event tool (press BTN_BACK) w)) = combos w @ [''super+page_down''] \<and>
   combos (fst (handle_event tool (press BTN_EXTRA) w)) = combos w @ [''super+page_up''] \<and>
   combos (fst (handle_event tool (press BTN_FORWARD) w)) = combos w @ [''super+page_up''] \<and>
   spawned (fst (handle_event tool (press BTN_SIDE) w)) =
     spawned w @ [[''ydotool'', ''key'', ''125:1'', ''109:1'', ''109:0'', ''125:0'']] \<and>
   spawned (fst (handle_event tool (press BTN_BACK) w)) =
     spawned (fst (handle_event tool (press BTN_SIDE) w)) \<and>
   spawned (fst (handle_event tool (press BTN_EXTRA) w)) =
     spawned w @ [[''ydotool'', ''key'', ''125:1'', ''104:1'', ''104:0'', ''125:0'']] \<and>
   spawned (fst (handle_event tool (press BTN_FORWARD) w)) =
     spawned (fst (handle_event tool (press BTN_EXTRA) w))"
proof -
  have a: "actionable (press BTN_SIDE)" "actionable (press BTN_BACK)"
    "actionable (press BTN_EXTRA)" "actionable (press BTN_FORWARD)"
    by (simp_all add: actionable_def press_def mapped_codes_def)
  have c: "chord_of BTN_SIDE = ''super+page_down''" "chord_of BTN_BACK = ''super+page_down''"
    "chord_of BTN_EXTRA = ''super+page_up''" "chord_of BTN_FORWARD = ''super+page_up''"
    by (simp_all add: chord_of_def ecodes_defs)
  have k: "ev_code (press x) = x" for x by (simp add: press_def)
  show ?thesis
    by (simp add: handle_event_eq a c k send_key_combo_spawned)
qed

text \<open>
  Claim C3, as amended. A press (\<^verbatim>\<open>EV_KEY\<close>, value 1) of a code outside the mapped set
  is ignored without a trace: no injection call, no line printed, no exception. The
  claim as written asks for one log entry noting the unmapped code; the program prints
  nothing there, as the evaluation at \<^verbatim>\<open>BTN_LEFT\<close> below shows.
\<close>

theorem unmapped_press_is_ignored:
  assumes "ev_type ev = EV_KEY" and "ev_value ev = 1" and "ev_code ev \<notin> mapped_codes"
  shows "handle_event tool ev w = (w, Inr ())"
  using assms by (simp add: handle_event_eq actionable_def)

theorem unmapped_press_is_ignored_witness:
  "ev_type (press BTN_LEFT) = EV_KEY \<and> ev_value (press BTN_LEFT) = 1 \<and>
   ev_code (press BTN_LEFT) \<notin> mapped_codes \<and>
   handle_event always_ok (press BTN_LEFT) init_world = (init_world, Inr ())"
proof -
  have p: "ev_type (press BTN_LEFT) = EV_KEY" "ev_value (press BTN_LEFT) = 1"
    "ev_code (press BTN_LEFT) \<notin> mapped_codes"
    by (simp_all add: press_def mapped_codes_def ecodes_defs)
  from unmapped_press_is_ignored[OF p] p show ?thesis by simp
qed

theorem unmapped_press_log_counterexample:
  "ev_type (press BTN_LEFT) = EV_KEY \<and> ev_value (press BTN_LEFT) = 1 \<and>
   ev_code (press BTN_LEFT) \<notin> mapped_codes \<and>
   \<not> (combos (fst (handle_event always_ok (press BTN_LEFT) init_world)) = combos init_world \<and>
      length (stdout (fst (handle_event always_ok (press BTN_LEFT) init_world))) =
        length (stdout init_world) + 1)"
  by (simp add: handle_event_def press_def mapped_codes_def ecodes_defs init_world_def)

text \<open>
  Claim C4. \<^verbatim>\<open>send_key_combo\<close> returns \<^verbatim>\<open>False\<close> and prints a message when the tool is
  absent (\<^verbatim>\<open>FileNotFoundError\<close>) and when it exits with a non-zero status
  (\<^verbatim>\<open>CalledProcessError\<close>). Neither failure is fatal. When the injection for an event
  of a batch fails in one of these ways, the failure is reported and the loop carries on
  with the rest of the batch, from the state in which the attempt and the report are
  recorded. Whatever mixture of successes and such failures the tool shows, every event
  delivered is processed, every mapped press leads to its call and its command, and the
  loop is still running after any run in which no read or select raises.
\<close>

theorem injection_failures_are_not_fatal:
  "(keys = ''super+page_up'' \<or> keys = ''super+page_down'' \<longrightarrow>
    tool (length (spawned w)) = Raises FileNotFoundError \<longrightarrow>
      snd (send_key_combo tool keys w) = Inr False \<and>
      stdout (fst (send_key_combo tool keys w)) =
        stdout w @ [Line ''ydotool not found. Please install it: sudo dnf install ydotool'']) \<and>
   (keys = ''super+page_up'' \<or> keys = ''super+page_down'' \<longrightarrow>
    tool (length (spawned w)) = Completed rc \<longrightarrow> rc \<noteq> 0 \<longrightarrow>
      snd (send_key_combo tool keys w) = Inr False \<and>
      stdout (fst (send_key_combo tool keys w)) = stdout w @ [ErrorSendingKeyCombo rc]) \<and>
   (actionable ev \<and> tool_fails (tool (length (spawned w))) \<longrightarrow>
      report (tool (length (spawned w))) \<noteq> [] \<and>
      process_events tool (ev # evs) w =
        process_events tool evs (after_injection tool ev w) \<and>
      event_loop tool (Data (ev # evs) # polls) w =
        event_loop tool (Data evs # polls) (after_injection tool ev w)) \<and>
   ((\<forall>n. tool_returns (tool n)) \<longrightarrow>
      snd (process_events tool evs w) = Inr () \<and>
      handled (fst (process_events tool evs w)) = handled w @ evs \<and>
      combos (fst (process_events tool evs w)) =
        combos w @ map (chord_of \<circ> ev_code) (filter actionable evs) \<and>
      spawned (fst (process_events tool evs w)) =
        spawned w @ map (argv_of \<circ> ev_code) (filter actionable evs)) \<and>
   ((\<forall>n. tool_returns (tool n)) \<and> (\<forall>p\<in>set polls. quiet p) \<longrightarrow>
      snd (handle_mouse_events tool d polls w) = Running \<and>
      handled (fst (handle_mouse_events tool d polls w)) =
        handled w @ concat (map events_of polls) \<and>
      combos (fst (handle_mouse_events tool d polls w)) =
        combos w @ map (chord_of \<circ> ev_code) (filter actionable (concat (map events_of polls))) \<and>
      spawned (fst (handle_mouse_events tool d polls w)) =
        spawned w @ map (argv_of \<circ> ev_code) (filter actionable (concat (map events_of polls))))"
proof (intro conjI impI)
  assume "keys = ''super+page_up'' \<or> keys = ''super+page_down''"
    and "tool (length (spawned w)) = Raises FileNotFoundError"
  then show "snd (send_key_combo tool keys w) = Inr False"
    and "stdout (fst (send_key_combo tool keys w)) =
        stdout w @ [Line ''ydotool not found. Please install it: sudo dnf install ydotool'']"
    by (auto simp: send_key_combo_def subprocess_run_def Let_def)
next
  assume "keys = ''super+page_up'' \<or> keys = ''super+page_down''"
    and "tool (length (spawned w)) = Completed rc" and "rc \<noteq> 0"
  then show "snd (send_key_combo tool keys w) = Inr False"
    and "stdout (fst (send_key_combo tool keys w)) = stdout w @ [ErrorSendingKeyCombo rc]"
    by (auto simp: send_key_combo_def subprocess_run_def Let_def)
next
  assume a: "actionable ev \<and> tool_fails (tool (length (spawned w)))"
  then have r: "tool_returns (tool (length (spawned w)))" by (simp add: tool_fails_returns)
  from a show "report (tool (length (spawned w))) \<noteq> []" by (simp add: tool_fails_report)
  from a have ac: "actionable ev" by simp
  show s: "process_events tool (ev # evs) w =
        process_events tool evs (after_injection tool ev w)"
    using process_events_step[of ev tool w evs] ac r by blast
  show "event_loop tool (Data (ev # evs) # polls) w =
        event_loop tool (Data evs # polls) (after_injection tool ev w)"
    by (simp only: event_loop.simps s)
next
  assume r: "\<forall>n. tool_returns (tool n)"
  show "snd (process_events tool evs w) = Inr ()"
    and "handled (fst (process_events tool evs w)) = handled w @ evs"
    and "combos (fst (process_events tool evs w)) =
        combos w @ map (chord_of \<circ> ev_code) (filter actionable evs)"
    using process_events_complete[OF r, of evs w] by simp_all
  show "spawned (fst (process_events tool evs w)) =
        spawned w @ map (argv_of \<circ> ev_code) (filter actionable evs)"
    by (rule process_events_spawned[OF r])
next
  assume a: "(\<forall>n. tool_returns (tool n)) \<and> (\<forall>p\<in>set polls. quiet p)"
  then have r: "\<forall>n. tool_returns (tool n)" and q: "\<forall>p\<in>set polls. quiet p" by simp_all
  show "snd (handle_mouse_events tool d polls w) = Running"
    and "handled (fst (handle_mouse_events tool d polls w)) =
        handled w @ concat (map events_of polls)"
    and "combos (fst (handle_mouse_events tool d polls w)) =
        combos w @ map (chord_of \<circ> ev_code) (filter actionable (concat (map events_of polls)))"
    using handle_mouse_events_complete[OF r q, of d w] by simp_all
  show "spawned (fst (handle_mouse_events tool d polls w)) =
        spawned w @ map (argv_of \<circ> ev_code) (filter actionable (concat (map events_of polls)))"
    by (rule handle_mouse_events_spawned[OF r q])
qed

theorem injection_failures_are_not_fatal_witness:
  "actionable (press BTN_SIDE) \<and>
   tool_fails (fails_then_works (length (spawned init_world))) \<and>
   (\<forall>n. tool_returns (fails_then_works n)) \<and> list_all quiet sample_run \<and>
   snd (send_key_combo never_installed ''super+page_up'' init_world) = Inr False \<and>
   stdout (fst (send_key_combo never_installed ''super+page_up'' init_world)) =
     [Line ''ydotool not found. Please install it: sudo dnf install ydotool''] \<and>
   snd (send_key_combo always_exit_1 ''super+page_down'' init_world) = Inr False \<and>
   stdout (fst (send_key_combo always_exit_1 ''super+page_down'' init_world)) =
     [ErrorSendingKeyCombo 1] \<and>
   process_events fails_then_works [press BTN_SIDE, press BTN_EXTRA, press BTN_BACK] init_world =
     process_events fails_then_works [press BTN_EXTRA, press BTN_BACK]
       (after_injection fails_then_works (press BTN_SIDE) init_world) \<and>
   snd (process_events fails_then_works [press BTN_SIDE, press BTN_EXTRA, press BTN_BACK]
          init_world) = Inr () \<and>
   stdout (fst (process_events fails_then_works [press BTN_SIDE, press BTN_EXTRA, press BTN_BACK]
                  init_world)) =
     [ButtonPressed 275, SendingPageDown,
      Line ''ydotool not found. Please install it: sudo dnf install ydotool'',
      ButtonPressed 276, SendingPageUp, ErrorSendingKeyCombo 1,
      ButtonPressed 278, SendingPageDown] \<and>
   spawned (fst (process_events fails_then_works [press BTN_SIDE, press BTN_EXTRA, press BTN_BACK]
                   init_world)) =
     [[''ydotool'', ''key'', ''125:1'', ''109:1'', ''109:0'', ''125:0''],
      [''ydotool'', ''key'', ''125:1'', ''104:1'', ''104:0'', ''125:0''],
      [''ydotool'', ''key'', ''125:1'', ''109:1'', ''109:0'', ''125:0'']] \<and>
   snd (handle_mouse_events fails_then_works m720 sample_run init_world) = Running \<and>
   combos (fst (handle_mouse_events fails_then_works m720 sample_run init_world)) =
     [''super+page_down'', ''super+page_up'']"
proof -
  let ?nf = "Line ''ydotool not found. Please install it: sudo dnf install ydotool''"
  let ?evs = "[press BTN_SIDE, press BTN_EXTRA, press BTN_BACK]"
  have i: "spawned init_world = []" "stdout init_world = []" "combos init_world = []"
    "handled init_world = []"
    by (simp_all add: init_world_def)
  have a1: "actionable (press BTN_SIDE)" by (rule sample_facts)
  have a2: "actionable (press BTN_EXTRA)" by (rule sample_facts)
  have a3: "actionable (press BTN_BACK)"
    by (simp add: actionable_def press_def mapped_codes_def)
  have f0: "tool_fails (fails_then_works (length (spawned init_world)))"
    by (simp add: i fails_then_works_def)
  have r: "\<forall>n. tool_returns (fails_then_works n)" by (simp add: fails_then_works_def)
  have q: "\<forall>p\<in>set sample_run. quiet p" by (simp add: sample_run_def)
  have k1: "''super+page_up'' = ''super+page_up'' \<or> ''super+page_up'' = ''super+page_down''"
    and k2: "''super+page_down'' = ''super+page_up'' \<or> ''super+page_down'' = ''super+page_down''"
    by simp_all
  have n1: "never_installed (length (spawned init_world)) = Raises FileNotFoundError"
    by (simp add: never_installed_def)
  have n2: "always_exit_1 (length (spawned init_world)) = Completed 1" "(1::int) \<noteq> 0"
    by (simp_all add: always_exit_1_def)
  from injection_failures_are_not_fatal[of "''super+page_up''" never_installed init_world] k1 n1
  have 1: "snd (send_key_combo never_installed ''super+page_up'' init_world) = Inr False"
    "stdout (fst (send_key_combo never_installed ''super+page_up'' init_world)) =
       stdout init_world @ [?nf]"
    by blast+
  from injection_failures_are_not_fatal[of "''super+page_down''" always_exit_1 init_world 1] k2 n2
  have 2: "snd (send_key_combo always_exit_1 ''super+page_down'' init_world) = Inr False"
    "stdout (fst (send_key_combo always_exit_1 ''super+page_down'' init_world)) =
       stdout init_world @ [ErrorSendingKeyCombo 1]"
    by blast+
  note step = injection_failures_are_not_fatal
    [of "''super+page_up''" fails_then_works init_world 1 "press BTN_SIDE"
        "[press BTN_EXTRA, press BTN_BACK]" sample_run m720]
  note inst = injection_failures_are_not_fatal
    [of "''super+page_up''" fails_then_works init_world 1 "press BTN_SIDE"
        ?evs sample_run m720]
  from step a1 f0
  have 3: "process_events fails_then_works ?evs init_world =
     process_events fails_then_works [press BTN_EXTRA, press BTN_BACK]
       (after_injection fails_then_works (press BTN_SIDE) init_world)"
    by blast
  from inst r
  have 4: "snd (process_events fails_then_works ?evs init_world) = Inr ()"
    and 5: "spawned (fst (process_events fails_then_works ?evs init_world)) =
      spawned init_world @ map (argv_of \<circ> ev_code) (filter actionable ?evs)"
    by blast+
  from inst r q
  have 6: "snd (handle_mouse_events fails_then_works m720 sample_run init_world) = Running"
    and 7: "combos (fst (handle_mouse_events fails_then_works m720 sample_run init_world)) =
      combos init_world @
        map (chord_of \<circ> ev_code) (filter actionable (concat (map events_of sample_run)))"
    by blast+
  define w1 where "w1 = after_injection fails_then_works (press BTN_SIDE) init_world"
  define w2 where "w2 = after_injection fails_then_works (press BTN_EXTRA) w1"
  define w3 where "w3 = after_injection fails_then_works (press BTN_BACK) w2"
  have l1: "length (spawned w1) = 1" by (simp add: w1_def after_injection_def i)
  have l2: "length (spawned w2) = 2" by (simp add: w2_def after_injection_def l1)
  have s2: "process_events fails_then_works [press BTN_EXTRA, press BTN_BACK] w1 =
      process_events fails_then_works [press BTN_BACK] w2"
    unfolding w2_def using process_events_step[of "press BTN_EXTRA" fails_then_works w1] a2 r
    by blast
  have s3: "process_events fails_then_works [press BTN_BACK] w2 = (w3, Inr ())"
    unfolding w3_def using process_events_step[of "press BTN_BACK" fails_then_works w2 "[]"] a3 r
    by simp
  have fin: "fst (process_events fails_then_works ?evs init_world) = w3"
    unfolding 3 w1_def[symmetric] s2 s3 by simp
  have c: "ev_code (press x) = x" for x by (simp add: press_def)
  have flt: "filter actionable ?evs = ?evs" by (simp add: a1 a2 a3)
  have flt2: "filter actionable (concat (map events_of sample_run)) =
      [press BTN_SIDE, press BTN_FORWARD]"
    by (simp add: sample_run_def sample_facts)
  have o: "stdout w3 =
     [ButtonPressed 275, SendingPageDown, ?nf,
      ButtonPressed 276, SendingPageUp, ErrorSendingKeyCombo 1,
      ButtonPressed 278, SendingPageDown]"
    by (simp add: w3_def w2_def w1_def after_injection_def i c announce_def fails_then_works_def
          ecodes_defs)
  have 8: "stdout (fst (process_events fails_then_works ?evs init_world)) =
     [ButtonPressed 275, SendingPageDown, ?nf,
      ButtonPressed 276, SendingPageUp, ErrorSendingKeyCombo 1,
      ButtonPressed 278, SendingPageDown]"
    unfolding fin by (rule o)
  have 9: "spawned (fst (process_events fails_then_works ?evs init_world)) =
     [[''ydotool'', ''key'', ''125:1'', ''109:1'', ''109:0'', ''125:0''],
      [''ydotool'', ''key'', ''125:1'', ''104:1'', ''104:0'', ''125:0''],
      [''ydotool'', ''key'', ''125:1'', ''109:1'', ''109:0'', ''125:0'']]"
    unfolding 5 flt by (simp add: i c argv_of_def ecodes_defs)
  have 10: "combos (fst (handle_mouse_events fails_then_works m720 sample_run init_world)) =
     [''super+page_down'', ''super+page_up'']"
    unfolding 7 flt2 by (simp add: i c chord_of_def ecodes_defs)
  have q': "list_all quiet sample_run" using q by (simp add: list_all_iff)
  show ?thesis
    using a1 f0 r q' 1 2 3 4 8 9 6 10 by (simp add: i)
qed

text \<open>
  Claim C5. \<^verbatim>\<open>find_m720_device\<close> returns the first device, in enumeration order, whose
  name contains "M720" or "Logitech" and whose \<^verbatim>\<open>EV_KEY\<close> capabilities contain one of
  the mouse button codes, and \<^verbatim>\<open>None\<close> when there is no such device. In that case
  \<^verbatim>\<open>main\<close> (run as root, the daemon set up) prints that the device was not found and
  then one line for each available device, in order, and returns.
\<close>

theorem first_matching_device_or_listing:
  "snd (find_m720_device (Inr devices) w) = Inr (List.find is_m720 devices) \<and>
   (setup_succeeds tool (length (spawned w)) \<and> List.find is_m720 devices = None \<longrightarrow>
      snd (main 0 argv0 tool (Inr devices) (Inr again) polls w) = Returned \<and>
      (\<exists>pre. stdout (fst (main 0 argv0 tool (Inr devices) (Inr again) polls w)) =
         pre @ [Line ''M720 device not found!'', Line (CHR 0x0A # ''Available devices:'')]
             @ device_entries again))"
proof (intro conjI impI)
  show "snd (find_m720_device (Inr devices) w) = Inr (List.find is_m720 devices)"
    using find_loop_find[of devices w]
    by (cases "find_loop devices w") (simp add: find_m720_device_def split: option.splits)
next
  assume a: "setup_succeeds tool (length (spawned w)) \<and> List.find is_m720 devices = None"
  define w0 where "w0 = print (Line (replicate 60 (CHR ''='')))
      (print (Line ''M720 Mouse Button Remapper for Wayland (Non-Grabbing Version)'') w)"
  have "spawned w0 = spawned w" by (simp add: w0_def)
  with a have "snd (setup_ydotool tool w0) = Inr True" by (simp add: setup_ydotool_True)
  then obtain w1 where s: "setup_ydotool tool w0 = (w1, Inr True)"
    by (cases "setup_ydotool tool w0") simp
  from a have "snd (find_loop devices w1) = None" by (simp add: find_loop_find)
  then obtain w2 where f: "find_loop devices w1 = (w2, None)"
    by (cases "find_loop devices w1") simp
  have m: "main 0 argv0 tool (Inr devices) (Inr again) polls w =
      (fold print (device_entries again)
         (print (Line (CHR 0x0A # ''Available devices:''))
            (print (Line ''M720 device not found!'') w2)), Returned)"
    unfolding main_def Let_def w0_def[symmetric]
    by (simp add: s f find_m720_device_def device_entries_def)
  show "snd (main 0 argv0 tool (Inr devices) (Inr again) polls w) = Returned"
    by (simp add: m)
  show "\<exists>pre. stdout (fst (main 0 argv0 tool (Inr devices) (Inr again) polls w)) =
         pre @ [Line ''M720 device not found!'', Line (CHR 0x0A # ''Available devices:'')]
             @ device_entries again"
    by (simp add: m)
qed

theorem first_matching_device_or_listing_witness:
  "setup_succeeds always_ok (length (spawned init_world)) \<and>
   List.find is_m720 [keyboard, receiver] = None \<and>
   snd (find_m720_device (Inr [keyboard, receiver, m720]) init_world) = Inr (Some m720) \<and>
   snd (main 0 ''remap.py'' always_ok (Inr [keyboard, receiver]) (Inr [keyboard, receiver]) []
          init_world) = Returned \<and>
   (\<exists>pre. stdout (fst (main 0 ''remap.py'' always_ok (Inr [keyboard, receiver])
                          (Inr [keyboard, receiver]) [] init_world)) =
      pre @ [Line ''M720 device not found!'', Line (CHR 0x0A # ''Available devices:''),
             DeviceEntry 0 ''AT Translated Set 2 keyboard'' ''/dev/input/event0'',
             DeviceEntry 1 ''Logitech USB Receiver'' ''/dev/input/event3''])"
proof -
  have h1: "setup_succeeds always_ok (length (spawned init_world))"
    by (simp add: setup_succeeds_def always_ok_def)
  have h2: "List.find is_m720 [keyboard, receiver] = None"
    by (simp add: sample_devices)
  have e: "device_entries [keyboard, receiver] =
      [DeviceEntry 0 ''AT Translated Set 2 keyboard'' ''/dev/input/event0'',
       DeviceEntry 1 ''Logitech USB Receiver'' ''/dev/input/event3'']"
    by (simp add: device_entries_def keyboard_def receiver_def)
  have 1: "snd (find_m720_device (Inr [keyboard, receiver, m720]) init_world) = Inr (Some m720)"
    using first_matching_device_or_listing[of "[keyboard, receiver, m720]" init_world]
    by (simp add: sample_devices)
  from first_matching_device_or_listing
    [of "[keyboard, receiver]" init_world always_ok "''remap.py''" "[keyboard, receiver]" "[]"]
    h1 h2
  have 2: "snd (main 0 ''remap.py'' always_ok (Inr [keyboard, receiver]) (Inr [keyboard, receiver]) []
          init_world) = Returned"
    and 3: "\<exists>pre. stdout (fst (main 0 ''remap.py'' always_ok (Inr [keyboard, receiver])
                          (Inr [keyboard, receiver]) [] init_world)) =
      pre @ [Line ''M720 device not found!'', Line (CHR 0x0A # ''Available devices:'')]
          @ device_entries [keyboard, receiver]"
    by blast+
  from 3 have 4: "\<exists>pre. stdout (fst (main 0 ''remap.py'' always_ok (Inr [keyboard, receiver])
                          (Inr [keyboard, receiver]) [] init_world)) =
      pre @ [Line ''M720 device not found!'', Line (CHR 0x0A # ''Available devices:''),
             DeviceEntry 0 ''AT Translated Set 2 keyboard'' ''/dev/input/event0'',
             DeviceEntry 1 ''Logitech USB Receiver'' ''/dev/input/event3'']"
    unfolding e by simp
  show ?thesis
    by (intro conjI) (rule h1, rule h2, rule 1, rule 2, rule 4)
qed

text \<open>
  Claim C6, as amended. On every exit of \<^verbatim>\<open>handle_mouse_events\<close>, by the interrupt or by
  any other exception, the device has been unregistered from the selector and the
  selector has been closed; while the loop runs, both are held. The device itself is
  not released: it is as open when the function is left as when it was entered. The
  claim as written has the handle of the input source released on every exit path; the
  program has no call that closes the device, and the run of \<^verbatim>\<open>main\<close> below (device
  found, loop interrupted, \<^verbatim>\<open>main\<close> returned) ends with the device open.
\<close>

theorem selector_released_on_every_exit:
  "(snd (handle_mouse_events tool d polls w) \<noteq> Running \<longrightarrow>
      \<not> registered (fst (handle_mouse_events tool d polls w)) \<and>
      \<not> selector_open (fst (handle_mouse_events tool d polls w))) \<and>
   (snd (handle_mouse_events tool d polls w) = Running \<longrightarrow>
      registered (fst (handle_mouse_events tool d polls w)) \<and>
      selector_open (fst (handle_mouse_events tool d polls w))) \<and>
   device_open (fst (handle_mouse_events tool d polls w)) = device_open w"
proof -
  define w2 where "w2 = (fold print (banner d) w)\<lparr>selector_open := True, registered := True\<rparr>"
  obtain w3 st where el: "event_loop tool polls w2 = (w3, st)"
    by (cases "event_loop tool polls w2")
  have r: "registered w3" "selector_open w3" "device_open w3 = device_open w"
    using event_loop_registered[of tool polls w2] event_loop_selector_open[of tool polls w2]
      event_loop_device_open[of tool polls w2]
    unfolding el by (simp_all add: w2_def)
  show ?thesis
    unfolding handle_mouse_events_def Let_def w2_def[symmetric] el
    by (cases st) (simp_all add: r)
qed

theorem selector_released_on_every_exit_witness:
  "snd (handle_mouse_events always_ok m720 [NoData, SelectRaises KeyboardInterrupt] loop_entry)
     = Returned \<and>
   \<not> registered
       (fst (handle_mouse_events always_ok m720 [NoData, SelectRaises KeyboardInterrupt] loop_entry)) \<and>
   \<not> selector_open
       (fst (handle_mouse_events always_ok m720 [NoData, SelectRaises KeyboardInterrupt] loop_entry)) \<and>
   device_open
       (fst (handle_mouse_events always_ok m720 [NoData, SelectRaises KeyboardInterrupt] loop_entry)) \<and>
   snd (handle_mouse_events always_ok m720 [ReadRaises OtherException] loop_entry)
     = Raised OtherException \<and>
   \<not> registered (fst (handle_mouse_events always_ok m720 [ReadRaises OtherException] loop_entry)) \<and>
   \<not> selector_open (fst (handle_mouse_events always_ok m720 [ReadRaises OtherException] loop_entry)) \<and>
   snd (handle_mouse_events always_ok m720 [NoData] loop_entry) = Running \<and>
   registered (fst (handle_mouse_events always_ok m720 [NoData] loop_entry)) \<and>
   selector_open (fst (handle_mouse_events always_ok m720 [NoData] loop_entry))"
proof -
  have d: "device_open loop_entry" by (simp add: loop_entry_def)
  have s1: "snd (handle_mouse_events always_ok m720 [NoData, SelectRaises KeyboardInterrupt] loop_entry)
      = Returned"
    by (rule interrupted_run)
  have s2: "snd (handle_mouse_events always_ok m720 [ReadRaises OtherException] loop_entry)
      = Raised OtherException"
    by (rule failed_run)
  have s3: "snd (handle_mouse_events always_ok m720 [NoData] loop_entry) = Running"
    by (simp add: handle_mouse_events_def)
  show ?thesis
    using d s1 s2 s3
      selector_released_on_every_exit
        [of always_ok m720 "[NoData, SelectRaises KeyboardInterrupt]" loop_entry]
      selector_released_on_every_exit[of always_ok m720 "[ReadRaises OtherException]" loop_entry]
      selector_released_on_every_exit[of always_ok m720 "[NoData]" loop_entry]
    by simp
qed

theorem device_left_open_counterexample:
  "snd (main 0 ''remap.py'' always_ok (Inr [keyboard, m720]) (Inr [keyboard, m720])
          [NoData, SelectRaises KeyboardInterrupt] init_world) = Returned \<and>
   \<not> registered (fst (main 0 ''remap.py'' always_ok (Inr [keyboard, m720]) (Inr [keyboard, m720])
          [NoData, SelectRaises KeyboardInterrupt] init_world)) \<and>
   device_open (fst (main 0 ''remap.py'' always_ok (Inr [keyboard, m720]) (Inr [keyboard, m720])
          [NoData, SelectRaises KeyboardInterrupt] init_world)) \<and>
   snd (handle_mouse_events always_ok m720 [ReadRaises OtherException] loop_entry)
     = Raised OtherException \<and>
   device_open (fst (handle_mouse_events always_ok m720 [ReadRaises OtherException] loop_entry))"
proof -
  let ?polls = "[NoData, SelectRaises KeyboardInterrupt]"
  define W0 where "W0 = print (Line (replicate 60 (CHR ''='')))
      (print (Line ''M720 Mouse Button Remapper for Wayland (Non-Grabbing Version)'') init_world)"
  have "setup_succeeds always_ok (length (spawned W0))"
    by (simp add: setup_succeeds_def always_ok_def)
  then have "snd (setup_ydotool always_ok W0) = Inr True" by (rule setup_ydotool_True)
  then obtain W1 where s: "setup_ydotool always_ok W0 = (W1, Inr True)"
    by (cases "setup_ydotool always_ok W0") simp
  obtain W2 where f: "find_m720_device (Inr [keyboard, m720]) W1 = (W2, Inr (Some m720))"
    and o: "device_open W2"
    using main_finds_m720[of W1] by simp
  define W3 where "W3 =
      print (Line ''NOT grabbing device - normal mouse functions will continue to work'')
        (print (UsingDevice (dev_name m720)) W2)"
  have o3: "device_open W3" using o by (simp add: W3_def)
  define H where "H = handle_mouse_events always_ok m720 ?polls W3"
  have h: "snd H = Returned" "\<not> registered (fst H)" "device_open (fst H)"
    unfolding H_def using o3 by (simp_all add: interrupted_run handle_mouse_events_device_open)
  have m: "main 0 ''remap.py'' always_ok (Inr [keyboard, m720]) (Inr [keyboard, m720])
          ?polls init_world = main_except H"
    unfolding main_def Let_def W0_def[symmetric] H_def W3_def by (simp add: s f)
  have me: "main_except H = H" using h(1) by (cases H) simp
  have 1: "device_open (fst (handle_mouse_events always_ok m720 [ReadRaises OtherException] loop_entry))"
    by (simp add: handle_mouse_events_device_open loop_entry_def)
  show ?thesis unfolding m me using h 1 by (simp add: failed_run)
qed

text \<open>
  Claim C7. A \<^verbatim>\<open>BlockingIOError\<close> raised by the read is "no more events this batch":
  wherever it occurs in a run, the loop behaves as if that turn had not happened and
  goes on with the next \<^verbatim>\<open>select\<close>. The same holds when the exception comes out of
  the body of the \<^verbatim>\<open>for\<close> loop: the rest of the batch is dropped and the loop goes on.
\<close>

theorem would_block_read_ends_the_batch_only:
  "event_loop tool (ps @ ReadRaises BlockingIOError # qs) w = event_loop tool (ps @ qs) w \<and>
   handle_mouse_events tool d (ps @ ReadRaises BlockingIOError # qs) w =
     handle_mouse_events tool d (ps @ qs) w \<and>
   (snd (process_events tool evs w) = Inl BlockingIOError \<longrightarrow>
      event_loop tool (Data evs # qs) w = event_loop tool qs (fst (process_events tool evs w)))"
proof -
  have 1: "event_loop tool (ps @ ReadRaises BlockingIOError # qs) w = event_loop tool (ps @ qs) w"
    for w by (simp add: event_loop_append split: prod.splits status.splits)
  have 2: "handle_mouse_events tool d (ps @ ReadRaises BlockingIOError # qs) w =
     handle_mouse_events tool d (ps @ qs) w"
    by (simp add: handle_mouse_events_def 1)
  have 3: "snd (process_events tool evs w) = Inl BlockingIOError \<longrightarrow>
      event_loop tool (Data evs # qs) w = event_loop tool qs (fst (process_events tool evs w))"
    by (cases "process_events tool evs w") simp
  from 1 2 3 show ?thesis by blast
qed

theorem would_block_read_ends_the_batch_only_witness:
  "snd (process_events would_block [press BTN_SIDE, press BTN_EXTRA] init_world)
     = Inl BlockingIOError \<and>
   event_loop would_block [Data [press BTN_SIDE, press BTN_EXTRA], NoData] init_world =
     event_loop would_block [NoData]
       (fst (process_events would_block [press BTN_SIDE, press BTN_EXTRA] init_world)) \<and>
   snd (event_loop would_block [Data [press BTN_SIDE, press BTN_EXTRA], NoData] init_world)
     = Running"
proof -
  have h: "snd (process_events would_block [press BTN_SIDE, press BTN_EXTRA] init_world)
      = Inl BlockingIOError"
    by (simp add: handle_event_def send_key_combo_def subprocess_run_def would_block_def
          press_def discard_def ecodes_defs)
  have e: "event_loop would_block [Data [press BTN_SIDE, press BTN_EXTRA], NoData] init_world =
     event_loop would_block [NoData]
       (fst (process_events would_block [press BTN_SIDE, press BTN_EXTRA] init_world))"
    using would_block_read_ends_the_batch_only
      [of would_block "[]" "[NoData]" init_world m720 "[press BTN_SIDE, press BTN_EXTRA]"] h
    by blast
  have r: "snd (event_loop would_block [NoData]
       (fst (process_events would_block [press BTN_SIDE, press BTN_EXTRA] init_world))) = Running"
    by simp
  from h e r show ?thesis by simp
qed

text \<open>
  Claim C8, evaluated on the program. The claim says that \<^verbatim>\<open>--simulate\<close> makes the
  benchmark use fabricated timings instead of needing elevated privileges. The script
  appends the switch to \<^verbatim>\<open>sys.argv\<close> and announces a simulation mode, but nothing reads
  it afterwards: the commands started and the results collected by \<^verbatim>\<open>main\<close> are those
  of \<^verbatim>\<open>run_all_benchmarks\<close>, whatever the switch and the user id. Run as an ordinary
  user with \<^verbatim>\<open>--simulate\<close>, it still starts \<^verbatim>\<open>sudo python3\<close>, \<^verbatim>\<open>sudo insmod\<close> and
  \<^verbatim>\<open>sudo rmmod\<close>.
\<close>

theorem simulate_switch_is_never_read:
  "commands (benchmark_main euid env b) = commands (run_all_benchmarks env b) \<and>
   results (benchmark_main euid env b) = results (run_all_benchmarks env b) \<and>
   commands (benchmark_main 1000 bench_all (bench_start [''benchmark.py'', ''--simulate''])) =
     [[''sudo'', ''python3'', ''../m720_button_remapper_safe.py''],
      [''sudo'', ''insmod'', ''../kernel-module/c-implementation/m720_remapper.ko''],
      [''sudo'', ''rmmod'', ''m720_remapper'']] \<and>
   results (benchmark_main 1000 bench_all (bench_start [''benchmark.py'', ''--simulate''])) =
     [''Python Userspace'', ''Kernel Module'', ''Hybrid (Estimated)'']"
proof -
  have g1: "commands (benchmark_main euid env b) = commands (run_all_benchmarks env b)"
    for euid env b
    by (simp add: benchmark_main_def Let_def run_all_benchmarks_commands)
  have g2: "results (benchmark_main euid env b) = results (run_all_benchmarks env b)"
    for euid env b
    by (simp add: benchmark_main_def Let_def run_all_benchmarks_results)
  have c1: "commands (benchmark_main 1000 bench_all (bench_start [''benchmark.py'', ''--simulate''])) =
     [[''sudo'', ''python3'', ''../m720_button_remapper_safe.py''],
      [''sudo'', ''insmod'', ''../kernel-module/c-implementation/m720_remapper.ko''],
      [''sudo'', ''rmmod'', ''m720_remapper'']]"
    unfolding g1 by (simp add: run_all_benchmarks_commands bench_all_def bench_start_def)
  have c2: "results (benchmark_main 1000 bench_all (bench_start [''benchmark.py'', ''--simulate''])) =
     [''Python Userspace'', ''Kernel Module'', ''Hybrid (Estimated)'']"
    unfolding g2 by (simp add: run_all_benchmarks_results bench_all_def bench_start_def)
  show ?thesis by (intro conjI) (rule g1, rule g2, rule c1, rule c2)
qed

text \<open>
  Claim C9. The branch for the "additional button codes" 275 to 278 is never taken:
  these are the codes \<^verbatim>\<open>BTN_SIDE\<close>, \<^verbatim>\<open>BTN_EXTRA\<close>, \<^verbatim>\<open>BTN_FORWARD\<close>, \<^verbatim>\<open>BTN_BACK\<close>,
  which the two branches before it consume, so the body without that branch is equal
  to the body as written, for every event, environment and state.
\<close>

theorem extra_codes_branch_unreachable:
  "handle_event_two_branches tool ev w = handle_event tool ev w"
  by (simp add: handle_event_def handle_event_two_branches_def ecodes_defs Let_def)



end
